theory Spec2Isabelle
  imports Main "HOL-Library.Sublist"
begin

section \<open>Data model of the kessel package\<close>

text \<open>
  Go error values. \<open>Errorf\<close> is an error made by \<open>fmt.Errorf\<close> from a plain message;
  the wrapping constructors are the \<open>%w\<close> wrappers of the gRPC client:
  \<open>"kessel check failed: %w"\<close>, \<open>"kessel batch check failed at index %d: %w"\<close>
  and \<open>"failed to connect to Kessel at %s: %w"\<close>.
  \<open>HTTPError code message\<close> is echo's \<open>NewHTTPError\<close>; without a message argument
  the message is the status text of the code.
  A Go \<open>error\<close> result is an \<open>error option\<close>, with \<open>None\<close> for \<open>nil\<close>.
\<close>

datatype error =
    Errorf string
  | CheckFailed error
  | BatchCheckFailed nat error
  | ConnectFailed error
  | HTTPError nat string

text \<open>
  A Go slice is either \<open>nil\<close> or a (possibly empty) sequence: \<open>[]string{}\<close> and
  \<open>make([]string, 0)\<close> are \<open>Slice []\<close>, not \<open>NilSlice\<close>. \<open>len\<close> is 0 on both.
\<close>

datatype 'a slice = NilSlice | Slice "'a list"

fun elems :: "'a slice \<Rightarrow> 'a list" where
  "elems NilSlice = []"
| "elems (Slice xs) = xs"

definition len :: "'a slice \<Rightarrow> nat" where
  "len s = length (elems s)"

text \<open>A call either returns or panics (an index out of range is a run-time panic in Go).\<close>

datatype 'a outcome = Return 'a | Panic

record Subject =
  Type :: string
  ID :: string
  Tenant :: string

record Resource =
  Type :: string
  ID :: string
  Tenant :: string

record ResourceCheck =
  Subject :: Subject
  Relation :: string
  Resource :: Resource

definition ResourceTypeRun :: string where
  "ResourceTypeRun = ''playbook-dispatcher/run''"

definition ResourceTypeRunHost :: string where
  "ResourceTypeRunHost = ''playbook-dispatcher/run_host''"

definition ResourceTypeOrg :: string where
  "ResourceTypeOrg = ''playbook-dispatcher/org''"

definition RelationRead :: string where
  "RelationRead = ''read''"

definition RelationWrite :: string where
  "RelationWrite = ''write''"

definition RelationCancel :: string where
  "RelationCancel = ''cancel''"

definition SubjectTypeUser :: string where
  "SubjectTypeUser = ''user''"

definition SubjectTypeServiceAccount :: string where
  "SubjectTypeServiceAccount = ''service_account''"

subsection \<open>Helper constructors of checks\<close>

definition DispatcherResourceCheck :: "Subject \<Rightarrow> string \<Rightarrow> string \<Rightarrow> string \<Rightarrow> ResourceCheck" where
  "DispatcherResourceCheck subject relation resourceType resourceID =
     \<lparr> Subject = subject,
       Relation = relation,
       Resource = \<lparr> Resource.Type = resourceType,
                    Resource.ID = resourceID,
                    Resource.Tenant = Subject.Tenant subject \<rparr> \<rparr>"

definition DispatcherRunCheck :: "Subject \<Rightarrow> string \<Rightarrow> string \<Rightarrow> ResourceCheck" where
  "DispatcherRunCheck subject relation runID =
     DispatcherResourceCheck subject relation ResourceTypeRun runID"

definition DispatcherRunHostCheck :: "Subject \<Rightarrow> string \<Rightarrow> string \<Rightarrow> ResourceCheck" where
  "DispatcherRunHostCheck subject relation runHostID =
     DispatcherResourceCheck subject relation ResourceTypeRunHost runHostID"


section \<open>The client interface and its implementations\<close>

text \<open>
  \<open>KesselClient\<close> is an interface; an implementation may keep state (a connection, a
  remote service, a call log), so each method takes the client's state and returns the
  new one together with the Go result pair. The \<open>checks\<close> argument of \<open>CheckBatch\<close>
  is only ever ranged over and measured, so it is passed as a list.
\<close>

record 'c KesselClient =
  Check :: "ResourceCheck \<Rightarrow> 'c \<Rightarrow> (bool \<times> error option) \<times> 'c"
  CheckBatch :: "ResourceCheck list \<Rightarrow> 'c \<Rightarrow> (bool slice \<times> error option) \<times> 'c"
  ListResources :: "Subject \<Rightarrow> string \<Rightarrow> string \<Rightarrow> 'c \<Rightarrow> (string slice \<times> error option) \<times> 'c"

subsection \<open>The mock client\<close>

definition NewMockKesselClient :: "bool \<Rightarrow> 'c KesselClient" where
  "NewMockKesselClient allowAll =
     \<lparr> Check = (\<lambda>check s. ((allowAll, None), s)),
       CheckBatch = (\<lambda>checks s. ((Slice (replicate (length checks) allowAll), None), s)),
       ListResources = (\<lambda>subject relation resourceType s.
          ((if allowAll then Slice [''*''] else Slice [], None), s)) \<rparr>"

subsection \<open>The gRPC client\<close>

text \<open>
  The request sent to the relations service: the nested object references of the
  protobuf message, flattened. The tenant of subject and resource is not part of it.
\<close>

record CheckRequest =
  SubjectTypeName :: string
  SubjectId :: string
  Relation :: string
  ResourceTypeName :: string
  ResourceId :: string

datatype CheckResponse_Allowed = ALLOWED_UNSPECIFIED | ALLOWED_TRUE | ALLOWED_FALSE

text \<open>
  The generated stub \<open>checkClient.Check\<close>: it answers with an error or with a response
  (never both), and the remote service may change state on the way.
\<close>

type_synonym 'r checkClient = "CheckRequest \<Rightarrow> 'r \<Rightarrow> (error + CheckResponse_Allowed) \<times> 'r"

definition toCheckRequest :: "ResourceCheck \<Rightarrow> CheckRequest" where
  "toCheckRequest check =
     \<lparr> SubjectTypeName = Subject.Type (Subject check),
       SubjectId = Subject.ID (Subject check),
       Relation = ResourceCheck.Relation check,
       ResourceTypeName = Resource.Type (Resource check),
       ResourceId = Resource.ID (Resource check) \<rparr>"

definition clientImpl_Check :: "'r checkClient \<Rightarrow> ResourceCheck \<Rightarrow> 'r \<Rightarrow> (bool \<times> error option) \<times> 'r" where
  "clientImpl_Check checkClient check s =
     (case checkClient (toCheckRequest check) s of
        (Inl err, s') \<Rightarrow> ((False, Some (CheckFailed err)), s')
      | (Inr allowed, s') \<Rightarrow> ((allowed = ALLOWED_TRUE, None), s'))"

text \<open>
  The loop of \<open>CheckBatch\<close> over \<open>items\<close>, from index \<open>i\<close>: one call per item, in order;
  the first error ends the loop and the whole batch with \<open>nil\<close> results.
\<close>

fun CheckBatch_loop :: "'r checkClient \<Rightarrow> CheckRequest list \<Rightarrow> nat \<Rightarrow> bool list \<Rightarrow> 'r
    \<Rightarrow> (bool slice \<times> error option) \<times> 'r" where
  "CheckBatch_loop checkClient [] i results s = ((Slice results, None), s)"
| "CheckBatch_loop checkClient (item # items) i results s =
     (case checkClient item s of
        (Inl err, s') \<Rightarrow> ((NilSlice, Some (BatchCheckFailed i err)), s')
      | (Inr allowed, s') \<Rightarrow>
          CheckBatch_loop checkClient items (Suc i) (results[i := (allowed = ALLOWED_TRUE)]) s')"

definition clientImpl_CheckBatch :: "'r checkClient \<Rightarrow> ResourceCheck list \<Rightarrow> 'r
    \<Rightarrow> (bool slice \<times> error option) \<times> 'r" where
  "clientImpl_CheckBatch checkClient checks s =
     (let items = map toCheckRequest checks;
          results = replicate (length checks) False
      in CheckBatch_loop checkClient items 0 results s)"

definition clientImpl_ListResources :: "Subject \<Rightarrow> string \<Rightarrow> string \<Rightarrow> 'r
    \<Rightarrow> (string slice \<times> error option) \<times> 'r" where
  "clientImpl_ListResources subject relation resourceType s =
     ((NilSlice, Some (Errorf ''ListResources not yet implemented'')), s)"

definition clientImpl :: "'r checkClient \<Rightarrow> 'r KesselClient" where
  "clientImpl checkClient =
     \<lparr> Check = clientImpl_Check checkClient,
       CheckBatch = clientImpl_CheckBatch checkClient,
       ListResources = clientImpl_ListResources \<rparr>"

text \<open>
  A relations service for worked examples: it answers each request by \<open>answer\<close> and
  its state is the log of the requests that reached it.
\<close>

definition recordingService :: "(CheckRequest \<Rightarrow> error + CheckResponse_Allowed)
    \<Rightarrow> (CheckRequest list) checkClient" where
  "recordingService answer = (\<lambda>req log. (answer req, log @ [req]))"

section \<open>Service permissions\<close>

definition ServicePermissionResourceType :: string where
  "ServicePermissionResourceType = ''playbook-dispatcher/service-permission''"

definition ServicePermissionRelationReader :: string where
  "ServicePermissionRelationReader = ''reader''"

definition KnownServices :: "string list" where
  "KnownServices =
     [''remediations'', ''config-manager'', ''vulnerability'', ''advisor'',
      ''compliance'', ''drift'', ''policies'', ''resource-optimization'']"

text \<open>The org-level check that both \<open>GetAllowedServices\<close> and \<open>HasServiceAccess\<close> build first.\<close>

definition orgCheck :: "Subject \<Rightarrow> ResourceCheck" where
  "orgCheck subject =
     \<lparr> Subject = subject,
       Relation = RelationRead,
       Resource = \<lparr> Resource.Type = ResourceTypeOrg,
                    Resource.ID = Subject.Tenant subject,
                    Resource.Tenant = Subject.Tenant subject \<rparr> \<rparr>"

text \<open>The per-service check, built for each known service and in \<open>HasServiceAccess\<close>.\<close>

definition serviceCheck :: "Subject \<Rightarrow> string \<Rightarrow> ResourceCheck" where
  "serviceCheck subject service =
     \<lparr> Subject = subject,
       Relation = ServicePermissionRelationReader,
       Resource = \<lparr> Resource.Type = ServicePermissionResourceType,
                    Resource.ID = service,
                    Resource.Tenant = Subject.Tenant subject \<rparr> \<rparr>"

text \<open>
  The collecting loop \<open>for i, allowed := range results { if allowed { acc = append(acc, src[i]) } }\<close>
  from index \<open>i\<close>. Reading \<open>src[i]\<close> beyond the end of \<open>src\<close> panics.
\<close>

fun collectAllowed :: "string list \<Rightarrow> bool list \<Rightarrow> nat \<Rightarrow> string list \<Rightarrow> string list outcome" where
  "collectAllowed src [] i acc = Return acc"
| "collectAllowed src (allowed # results) i acc =
     (if allowed
      then (if i < length src then collectAllowed src results (Suc i) (acc @ [src ! i]) else Panic)
      else collectAllowed src results (Suc i) acc)"

definition getServicePermissions :: "'c KesselClient \<Rightarrow> Subject \<Rightarrow> 'c
    \<Rightarrow> ((string slice \<times> bool \<times> error option) \<times> 'c) outcome" where
  "getServicePermissions client subject s =
     (let checks = map (serviceCheck subject) KnownServices in
      case CheckBatch client checks s of
        ((results, Some err), s') \<Rightarrow> Return ((NilSlice, False, Some err), s')
      | ((results, None), s') \<Rightarrow>
          (case collectAllowed KnownServices (elems results) 0 [] of
             Panic \<Rightarrow> Panic
           | Return allowedServices \<Rightarrow>
               if length allowedServices = 0
               then Return ((NilSlice, True, None), s')
               else Return ((Slice allowedServices, True, None), s')))"

definition GetAllowedServices :: "'c KesselClient \<Rightarrow> Subject \<Rightarrow> 'c
    \<Rightarrow> ((string slice \<times> bool \<times> error option) \<times> 'c) outcome" where
  "GetAllowedServices client subject s =
     (case Check client (orgCheck subject) s of
        ((hasOrgAccess, Some err), s') \<Rightarrow> Return ((NilSlice, False, Some err), s')
      | ((hasOrgAccess, None), s') \<Rightarrow>
          if hasOrgAccess then Return ((NilSlice, False, None), s')
          else getServicePermissions client subject s')"

definition HasServiceAccess :: "'c KesselClient \<Rightarrow> Subject \<Rightarrow> string \<Rightarrow> 'c
    \<Rightarrow> (bool \<times> error option) \<times> 'c" where
  "HasServiceAccess client subject service s =
     (case Check client (orgCheck subject) s of
        ((hasOrgAccess, Some err), s') \<Rightarrow> ((False, Some err), s')
      | ((hasOrgAccess, None), s') \<Rightarrow>
          if hasOrgAccess then ((True, None), s')
          else Check client (serviceCheck subject service) s')"

section \<open>Attribute and service filters\<close>

definition GetAttributeFilters :: "'c KesselClient \<Rightarrow> Subject \<Rightarrow> string \<Rightarrow> string \<Rightarrow> string \<Rightarrow> 'c
    \<Rightarrow> (string slice \<times> error option) \<times> 'c" where
  "GetAttributeFilters client subject relation resourceType attributeKey s =
     ((Slice [], Some (Errorf ''attribute filtering not yet implemented in Kessel'')), s)"

definition CheckWithAttributes :: "'c KesselClient \<Rightarrow> ResourceCheck \<Rightarrow> (string \<rightharpoonup> string) \<Rightarrow> 'c
    \<Rightarrow> (bool \<times> error option) \<times> 'c" where
  "CheckWithAttributes client check attributes s =
     (case Check client check s of
        ((allowed, Some err), s') \<Rightarrow> ((False, Some err), s')
      | ((allowed, None), s') \<Rightarrow>
          if \<not> allowed then ((False, None), s') else ((True, None), s'))"

definition FilterByServicePermission :: "'c KesselClient \<Rightarrow> Subject \<Rightarrow> string \<Rightarrow> string \<Rightarrow> 'c
    \<Rightarrow> (string slice \<times> bool \<times> error option) \<times> 'c" where
  "FilterByServicePermission client subject relation resourceType s =
     ((NilSlice, False, None), s)"

definition ApplyServiceFilter :: "'c KesselClient \<Rightarrow> Subject \<Rightarrow> 'c
    \<Rightarrow> (string slice \<times> bool \<times> error option) \<times> 'c" where
  "ApplyServiceFilter client subject s =
     (case FilterByServicePermission client subject RelationRead ResourceTypeRun s of
        ((services, filtering, Some err), s') \<Rightarrow> ((NilSlice, False, Some err), s')
      | ((services, filtering, None), s') \<Rightarrow>
          if \<not> filtering \<or> len services = 0 then ((NilSlice, False, None), s')
          else ((services, True, None), s'))"

section \<open>Filtering a list of resources\<close>

definition FilterAuthorizedResources :: "'c KesselClient \<Rightarrow> Subject \<Rightarrow> string \<Rightarrow> string
    \<Rightarrow> string slice \<Rightarrow> 'c \<Rightarrow> ((string slice \<times> error option) \<times> 'c) outcome" where
  "FilterAuthorizedResources client subject relation resourceType resourceIDs s =
     (if len resourceIDs = 0 then Return ((Slice [], None), s)
      else
        let checks = map (DispatcherResourceCheck subject relation resourceType) (elems resourceIDs) in
        case CheckBatch client checks s of
          ((results, Some err), s') \<Rightarrow> Return ((NilSlice, Some err), s')
        | ((results, None), s') \<Rightarrow>
            (case collectAllowed (elems resourceIDs) (elems results) 0 [] of
               Panic \<Rightarrow> Panic
             | Return authorized \<Rightarrow> Return ((Slice authorized, None), s')))"

section \<open>The authorization middleware\<close>

text \<open>
  What a request handler sees and changes, as far as the middleware is concerned:
  the identity put into the request context by the identity middleware, the path
  parameters, the value stored under \<open>kesselPermissionsKey\<close>, the instrumentation
  events recorded so far, the response written by a controller, and the state of the
  Kessel client. The packages \<open>instrumentation\<close> and the helper
  \<open>utils.SetRequestContextValue\<close> are not part of the sources at hand; their calls are
  recorded in \<open>instrumentation\<close> and \<open>kesselPermissions\<close>.
\<close>

record Identity =
  OrgID :: string
  Username :: string

datatype instrumentation_event = RbacError error | RbacRejected

record 'c Context =
  identity :: Identity
  Param :: "string \<Rightarrow> string"
  kesselPermissions :: "Subject option"
  instrumentation :: "instrumentation_event list"
  response :: "(nat \<times> string) option"
  kessel :: 'c

type_synonym 'c HandlerFunc = "'c Context \<Rightarrow> error option \<times> 'c Context"

type_synonym 'c MiddlewareFunc = "'c HandlerFunc \<Rightarrow> 'c HandlerFunc"

type_synonym 'c KesselResourceExtractor = "'c Context \<Rightarrow> Resource \<times> error option"

definition StatusBadRequest :: nat where "StatusBadRequest = 400"
definition StatusUnauthorized :: nat where "StatusUnauthorized = 401"
definition StatusForbidden :: nat where "StatusForbidden = 403"
definition StatusServiceUnavailable :: nat where "StatusServiceUnavailable = 503"

text \<open>
  The configuration values the middleware and the route setup read. \<open>dial\<close> is what
  connecting to the relations service yields for this configuration (\<open>grpc.Dial\<close>
  on \<open>kessel.hostname\<close> and \<open>kessel.port\<close>): an error or the stub to call.
\<close>

record 'c Config =
  kessel_impl :: string
  kessel_enabled :: bool
  dial :: "error + 'c checkClient"

definition NewKesselClient :: "'c Config \<Rightarrow> error + 'c KesselClient" where
  "NewKesselClient cfg =
     (case dial cfg of
        Inl err \<Rightarrow> Inl (ConnectFailed err)
      | Inr checkClient \<Rightarrow> Inr (clientImpl checkClient))"

text \<open>
  The handler that \<open>EnforceKesselPermissions\<close> returns, for the client it has chosen:
  the closure \<open>func(next) func(c) error\<close>.
\<close>

definition enforceWithClient :: "'c KesselClient \<Rightarrow> string \<Rightarrow> 'c KesselResourceExtractor
    \<Rightarrow> 'c MiddlewareFunc" where
  "enforceWithClient client relation resourceExtractor next c =
     (if OrgID (identity c) = [] \<or> Username (identity c) = []
      then (Some (HTTPError StatusUnauthorized ''missing identity information''), c)
      else
        let subject = \<lparr> Subject.Type = SubjectTypeUser,
                        Subject.ID = Username (identity c),
                        Subject.Tenant = OrgID (identity c) \<rparr> in
        case resourceExtractor c of
          (resource, Some err) \<Rightarrow>
            (Some (HTTPError StatusBadRequest ''failed to extract resource from request''), c)
        | (resource, None) \<Rightarrow>
            let check = \<lparr> Subject = subject, Relation = relation, Resource = resource \<rparr> in
            (case Check client check (kessel c) of
               ((allowed, Some err), s') \<Rightarrow>
                 (Some (HTTPError StatusServiceUnavailable ''error checking permissions with Kessel''),
                  c\<lparr> kessel := s', instrumentation := (instrumentation c) @ [RbacError err] \<rparr>)
             | ((allowed, None), s') \<Rightarrow>
                 if \<not> allowed
                 then (Some (HTTPError StatusForbidden ''Forbidden''),
                       c\<lparr> kessel := s', instrumentation := (instrumentation c) @ [RbacRejected] \<rparr>)
                 else next (c\<lparr> kessel := s', kesselPermissions := Some subject \<rparr>)))"

text \<open>
  \<open>EnforceKesselPermissions\<close> picks the client from the configuration when the
  middleware is built, and panics when the real client cannot be created.
\<close>

definition EnforceKesselPermissions :: "'c Config \<Rightarrow> string \<Rightarrow> 'c KesselResourceExtractor
    \<Rightarrow> ('c MiddlewareFunc) outcome" where
  "EnforceKesselPermissions cfg relation resourceExtractor =
     (if kessel_impl cfg = ''impl''
      then (case NewKesselClient cfg of
              Inl err \<Rightarrow> Panic
            | Inr client \<Rightarrow> Return (enforceWithClient client relation resourceExtractor))
      else Return (enforceWithClient (NewMockKesselClient True) relation resourceExtractor))"

definition orgExtractor :: "string \<Rightarrow> 'c KesselResourceExtractor" where
  "orgExtractor resourceType c =
     (\<lparr> Resource.Type = resourceType,
        Resource.ID = ''*'',
        Resource.Tenant = OrgID (identity c) \<rparr>, None)"

definition EnforceKesselOrgPermissions :: "'c Config \<Rightarrow> string \<Rightarrow> string
    \<Rightarrow> ('c MiddlewareFunc) outcome" where
  "EnforceKesselOrgPermissions cfg relation resourceType =
     EnforceKesselPermissions cfg relation (orgExtractor resourceType)"

section \<open>Route setup for the gradual migration\<close>

text \<open>
  A route as echo registers it: method, path, the controller and the middleware given
  with it. A group has its own middleware (\<open>Use\<close>) and its routes, in registration order.
\<close>

record 'c Route =
  Method :: string
  Path :: string
  handler :: "'c HandlerFunc"
  middleware :: "'c MiddlewareFunc list"

record 'c Group =
  prefix :: string
  groupMiddleware :: "'c MiddlewareFunc list"
  routes :: "'c Route list"

text \<open>echo applies the middleware of a route from the last to the first around the handler.\<close>

definition applyMiddleware :: "'c HandlerFunc \<Rightarrow> 'c MiddlewareFunc list \<Rightarrow> 'c HandlerFunc" where
  "applyMiddleware h ms = foldr (\<lambda>m acc. m acc) ms h"

record 'c Controllers =
  ApiRunsList :: "'c HandlerFunc"
  ApiRunsGet :: "'c HandlerFunc"

definition runExtractor :: "'c KesselResourceExtractor" where
  "runExtractor c =
     (\<lparr> Resource.Type = ResourceTypeRun,
        Resource.ID = Param c ''run_id'',
        Resource.Tenant = OrgID (identity c) \<rparr>, None)"

text \<open>
  \<open>SetupRoutesWithBothRBACAndKessel\<close>: \<open>EnforceIdentity\<close> is the identity middleware
  of the platform library. In the branch for the legacy system the two registrations
  are commented out in the source, so that branch registers nothing.
\<close>

definition SetupRoutesWithBothRBACAndKessel :: "'c MiddlewareFunc \<Rightarrow> 'c Config \<Rightarrow> 'c Controllers
    \<Rightarrow> ('c Group \<times> error option) outcome" where
  "SetupRoutesWithBothRBACAndKessel EnforceIdentity cfg controllers =
     (let kesselEnabled = kessel_enabled cfg;
          api = \<lparr> prefix = ''/api/playbook-dispatcher/v1'',
                  groupMiddleware = [EnforceIdentity],
                  routes = [] \<rparr>
      in
      if kesselEnabled then
        (case EnforceKesselOrgPermissions cfg RelationRead ResourceTypeRun of
           Panic \<Rightarrow> Panic
         | Return m1 \<Rightarrow>
             let api1 = api\<lparr> routes := routes api @
                         [\<lparr> Method = ''GET'', Path = ''/runs'',
                            handler = ApiRunsList controllers, middleware = [m1] \<rparr>] \<rparr> in
             (case EnforceKesselPermissions cfg RelationRead runExtractor of
                Panic \<Rightarrow> Panic
              | Return m2 \<Rightarrow>
                  let api2 = api1\<lparr> routes := routes api1 @
                              [\<lparr> Method = ''GET'', Path = ''/runs/:run_id'',
                                 handler = ApiRunsGet controllers, middleware = [m2] \<rparr>] \<rparr> in
                  Return (api2, None)))
      else Return (api, None))"

section \<open>Inputs for worked examples\<close>

definition jdoe :: Subject where
  "jdoe = \<lparr> Subject.Type = ''user'', Subject.ID = ''jdoe'', Subject.Tenant = ''org1'' \<rparr>"
text \<open>
  The answers of the relations service in the scenario "remediations allowed, one
  check failing, everything else denied"; the failing check is the one for
  "vulnerability".
\<close>

definition scenario :: "CheckRequest \<Rightarrow> error + CheckResponse_Allowed" where
  "scenario req =
     (if ResourceId req = ''remediations'' then Inr ALLOWED_TRUE
      else if ResourceId req = ''vulnerability'' then Inl (Errorf ''unavailable'')
      else Inr ALLOWED_FALSE)"

text \<open>
  A request by \<open>jdoe\<close> for the run \<open>r1\<close>, before any middleware has run, with the
  Kessel client in state \<open>s\<close>; and a controller that answers 200.
\<close>

definition jdoeRequest :: "'c \<Rightarrow> 'c Context" where
  "jdoeRequest s =
     \<lparr> identity = \<lparr> OrgID = ''org1'', Username = ''jdoe'' \<rparr>,
       Param = (\<lambda>name. if name = ''run_id'' then ''r1'' else []),
       kesselPermissions = None,
       instrumentation = [],
       response = None,
       kessel = s \<rparr>"

definition respondOK :: "'c HandlerFunc" where
  "respondOK c = (None, c\<lparr> response := Some (200, ''ok'') \<rparr>)"

text \<open>
  Two configurations: the defaults of \<open>ConfigureDefaults\<close> (mock client, Kessel
  disabled), and Kessel enabled with the real client connected to a recording service.
\<close>

definition kesselOff :: "'c Config" where
  "kesselOff = \<lparr> kessel_impl = ''mock'', kessel_enabled = False,
                 dial = Inl (Errorf ''not connected'') \<rparr>"

definition kesselOn :: "(CheckRequest \<Rightarrow> error + CheckResponse_Allowed)
    \<Rightarrow> (CheckRequest list) Config" where
  "kesselOn answer = \<lparr> kessel_impl = ''impl'', kessel_enabled = True,
                       dial = Inr (recordingService answer) \<rparr>"

section \<open>Checks built by the helpers stay inside the subject's tenant\<close>

text \<open>
  Claim C9. Every check built by \<open>DispatcherResourceCheck\<close>, \<open>DispatcherRunCheck\<close> or
  \<open>DispatcherRunHostCheck\<close> carries the given subject and relation, and the tenant of its
  resource is the tenant of its subject, for every subject, relation, resource type and
  resource identifier.
\<close>

theorem helper_checks_same_tenant:
  "Resource.Tenant (Resource (DispatcherResourceCheck subject relation resourceType resourceID))
     = Subject.Tenant (Subject (DispatcherResourceCheck subject relation resourceType resourceID))
   \<and> Resource.Tenant (Resource (DispatcherRunCheck subject relation runID))
     = Subject.Tenant (Subject (DispatcherRunCheck subject relation runID))
   \<and> Resource.Tenant (Resource (DispatcherRunHostCheck subject relation runHostID))
     = Subject.Tenant (Subject (DispatcherRunHostCheck subject relation runHostID))
   \<and> Subject (DispatcherResourceCheck subject relation resourceType resourceID) = subject
   \<and> Subject (DispatcherRunCheck subject relation runID) = subject
   \<and> Subject (DispatcherRunHostCheck subject relation runHostID) = subject"
  by (simp add: DispatcherResourceCheck_def DispatcherRunCheck_def DispatcherRunHostCheck_def)

section \<open>The collecting loop\<close>

text \<open>
  Whatever the loop returns extends the accumulator by a subsequence of the part of
  \<open>src\<close> from index \<open>i\<close> on.
\<close>

lemma collectAllowed_subseq:
  "collectAllowed src rs i acc = Return out \<Longrightarrow> \<exists>ys. out = acc @ ys \<and> subseq ys (drop i src)"
proof (induction rs arbitrary: i acc)
  case Nil
  then show ?case by simp
next
  case (Cons allowed rs)
  show ?case
  proof (cases allowed)
    case True
    with Cons.prems have lt: "i < length src"
      and rec: "collectAllowed src rs (Suc i) (acc @ [src ! i]) = Return out"
      by (auto split: if_splits)
    from Cons.IH [OF rec] obtain ys where ys: "out = (acc @ [src ! i]) @ ys" "subseq ys (drop (Suc i) src)"
      by blast
    have "drop i src = src ! i # drop (Suc i) src"
      using lt by (simp add: Cons_nth_drop_Suc)
    with ys show ?thesis by auto
  next
    case False
    with Cons.prems have rec: "collectAllowed src rs (Suc i) acc = Return out"
      by simp
    from Cons.IH [OF rec] obtain ys where ys: "out = acc @ ys" "subseq ys (drop (Suc i) src)"
      by blast
    have "subseq ys (drop i src)"
    proof (cases "i < length src")
      case True
      then have "drop i src = src ! i # drop (Suc i) src" by (simp add: Cons_nth_drop_Suc)
      with ys(2) show ?thesis by (simp add: list_emb_Cons)
    next
      case False
      with ys(2) show ?thesis by simp
    qed
    with ys show ?thesis by blast
  qed
qed

lemma collectAllowed_zip:
  "length rs + i \<le> length src \<Longrightarrow>
   collectAllowed src rs i acc = Return (acc @ map fst (filter snd (zip (drop i src) rs)))"
proof (induction rs arbitrary: i acc)
  case Nil
  then show ?case by simp
next
  case (Cons allowed rs)
  then have lt: "i < length src" and le: "length rs + Suc i \<le> length src" by simp_all
  have d: "drop i src = src ! i # drop (Suc i) src"
    using lt by (simp add: Cons_nth_drop_Suc)
  show ?case
    using Cons.IH [OF le] lt by (simp add: d)
qed

lemma collectAllowed_all_False:
  "\<forall>r \<in> set rs. \<not> r \<Longrightarrow> collectAllowed src rs i acc = Return acc"
  by (induction rs arbitrary: i) auto


section \<open>Filtering resources returns a subsequence\<close>

text \<open>
  Claim C10. Whenever \<open>FilterAuthorizedResources\<close> returns, the list it returns is a
  subsequence of the input identifiers: only identifiers of the input, in their order,
  none added or repeated. For an input of length 0 (nil or empty) it returns the empty,
  non-nil list with no error and leaves the client's state untouched, whatever the
  client is: the client is not called. When the batch check answers without error and
  with no more results than checks, the call returns exactly the identifiers whose
  result is true.
\<close>

theorem FilterAuthorizedResources_subseq:
  "(FilterAuthorizedResources client subject relation resourceType resourceIDs s
       = Return ((authorized, err), s')
      \<longrightarrow> subseq (elems authorized) (elems resourceIDs))
   \<and> (len resourceIDs = 0
      \<longrightarrow> FilterAuthorizedResources client subject relation resourceType resourceIDs s
            = Return ((Slice [], None), s))
   \<and> (len resourceIDs \<noteq> 0
        \<and> CheckBatch client
             (map (DispatcherResourceCheck subject relation resourceType) (elems resourceIDs)) s
            = ((results, None), s')
        \<and> len results \<le> len resourceIDs
      \<longrightarrow> FilterAuthorizedResources client subject relation resourceType resourceIDs s
            = Return ((Slice (map fst (filter snd (zip (elems resourceIDs) (elems results)))), None), s'))"
proof (intro conjI impI)
  assume r: "FilterAuthorizedResources client subject relation resourceType resourceIDs s
       = Return ((authorized, err), s')"
  show "subseq (elems authorized) (elems resourceIDs)"
  proof (cases "len resourceIDs = 0")
    case True
    with r show ?thesis by (auto simp add: FilterAuthorizedResources_def)
  next
    case False
    obtain results e s1 where cb: "CheckBatch client
        (map (DispatcherResourceCheck subject relation resourceType) (elems resourceIDs)) s
        = ((results, e), s1)"
      by (metis prod.exhaust)
    show ?thesis
    proof (cases e)
      case (Some x)
      with r False cb show ?thesis by (auto simp add: FilterAuthorizedResources_def)
    next
      case None
      with r False cb obtain out where
        c: "collectAllowed (elems resourceIDs) (elems results) 0 [] = Return out"
        and a: "authorized = Slice out"
        by (auto simp: FilterAuthorizedResources_def split: outcome.splits)
      from collectAllowed_subseq [OF c] a show ?thesis by simp
    qed
  qed
next
  assume "len resourceIDs = 0"
  then show "FilterAuthorizedResources client subject relation resourceType resourceIDs s
            = Return ((Slice [], None), s)"
    by (simp add: FilterAuthorizedResources_def)
next
  assume a: "len resourceIDs \<noteq> 0
        \<and> CheckBatch client
             (map (DispatcherResourceCheck subject relation resourceType) (elems resourceIDs)) s
            = ((results, None), s')
        \<and> len results \<le> len resourceIDs"
  then have "length (elems results) + 0 \<le> length (elems resourceIDs)"
    by (simp add: len_def)
  from collectAllowed_zip [OF this, of "[]"] a
  show "FilterAuthorizedResources client subject relation resourceType resourceIDs s
            = Return ((Slice (map fst (filter snd (zip (elems resourceIDs) (elems results)))), None), s')"
    by (simp add: FilterAuthorizedResources_def)
qed


theorem FilterAuthorizedResources_subseq_witness:
  "FilterAuthorizedResources
       (clientImpl (recordingService
          (\<lambda>req. if ResourceId req = ''r2'' then Inr ALLOWED_FALSE else Inr ALLOWED_TRUE)))
       jdoe RelationRead ResourceTypeRun (Slice [''r1'', ''r2'', ''r3'']) []
     = Return ((Slice [''r1'', ''r3''], None),
         map (\<lambda>i. toCheckRequest (DispatcherResourceCheck jdoe RelationRead ResourceTypeRun i))
           [''r1'', ''r2'', ''r3''])
   \<and> subseq [''r1'', ''r3''] [''r1'', ''r2'', ''r3'']
   \<and> FilterAuthorizedResources
       (clientImpl (recordingService (\<lambda>req. Inr ALLOWED_TRUE)))
       jdoe RelationRead ResourceTypeRun NilSlice [] = Return ((Slice [], None), [])"
proof -
  let ?client = "clientImpl (recordingService
          (\<lambda>req. if ResourceId req = ''r2'' then Inr ALLOWED_FALSE else Inr ALLOWED_TRUE))"
  let ?log = "map (\<lambda>i. toCheckRequest (DispatcherResourceCheck jdoe RelationRead ResourceTypeRun i))
           [''r1'', ''r2'', ''r3'']"
  have h1: "FilterAuthorizedResources ?client jdoe RelationRead ResourceTypeRun
              (Slice [''r1'', ''r2'', ''r3'']) []
            = Return ((Slice [''r1'', ''r3''], None), ?log)"
    by (simp add: FilterAuthorizedResources_def clientImpl_def clientImpl_CheckBatch_def
        recordingService_def toCheckRequest_def DispatcherResourceCheck_def len_def)
  have h2: "len (NilSlice :: string slice) = 0"
    by (simp add: len_def)
  have h3: "len (Slice [''r1'', ''r2'', ''r3'']) \<noteq> 0
        \<and> CheckBatch ?client
             (map (DispatcherResourceCheck jdoe RelationRead ResourceTypeRun)
                (elems (Slice [''r1'', ''r2'', ''r3'']))) []
            = ((Slice [True, False, True], None), ?log)
        \<and> len (Slice [True, False, True]) \<le> len (Slice [''r1'', ''r2'', ''r3''])"
    by (simp add: clientImpl_def clientImpl_CheckBatch_def
        recordingService_def toCheckRequest_def DispatcherResourceCheck_def len_def)
  note t1 = FilterAuthorizedResources_subseq
    [of ?client jdoe RelationRead ResourceTypeRun "Slice [''r1'', ''r2'', ''r3'']" "[]"
        "Slice [''r1'', ''r3'']" None ?log "Slice [True, False, True]"]
  note t2 = FilterAuthorizedResources_subseq
    [of "clientImpl (recordingService (\<lambda>req. Inr ALLOWED_TRUE))"
        jdoe RelationRead ResourceTypeRun NilSlice "[]"]
  from t1 h1 h3 have a: "subseq [''r1'', ''r3''] [''r1'', ''r2'', ''r3'']"
    by simp
  from t2 h2 have b: "FilterAuthorizedResources
       (clientImpl (recordingService (\<lambda>req. Inr ALLOWED_TRUE)))
       jdoe RelationRead ResourceTypeRun NilSlice [] = Return ((Slice [], None), [])"
    by blast
  from h1 a b show ?thesis by blast
qed

section \<open>Service permissions stay inside the catalog\<close>

lemma length_KnownServices: "length KnownServices = 8"
  by (simp add: KnownServices_def)

text \<open>Definitions unfolded when a worked example is evaluated.\<close>

lemmas eval_defs =
  getServicePermissions_def GetAllowedServices_def HasServiceAccess_def
  clientImpl_def clientImpl_Check_def clientImpl_CheckBatch_def recordingService_def
  toCheckRequest_def serviceCheck_def orgCheck_def KnownServices_def jdoe_def

lemma getServicePermissions_cases:
  assumes "getServicePermissions client subject s = Return ((services, filterRequired, err), s')"
  obtains (failed) results e where
      "CheckBatch client (map (serviceCheck subject) KnownServices) s = ((results, Some e), s')"
      "services = NilSlice" "\<not> filterRequired" "err = Some e"
    | (answered) results allowedServices where
      "CheckBatch client (map (serviceCheck subject) KnownServices) s = ((results, None), s')"
      "collectAllowed KnownServices (elems results) 0 [] = Return allowedServices"
      "elems services = allowedServices" "filterRequired" "err = None"
proof -
  obtain results e s1 where cb:
    "CheckBatch client (map (serviceCheck subject) KnownServices) s = ((results, e), s1)"
    by (metis prod.exhaust)
  show thesis
  proof (cases e)
    case (Some x)
    with assms cb show thesis
      by (intro failed [of results x]) (auto simp: getServicePermissions_def)
  next
    case None
    with assms cb obtain out where
      c: "collectAllowed KnownServices (elems results) 0 [] = Return out"
      by (auto simp: getServicePermissions_def split: outcome.splits)
    with assms cb None show thesis
      by (intro answered [of results out])
         (auto simp: getServicePermissions_def split: if_splits)
  qed
qed

lemma getServicePermissions_within:
  assumes "getServicePermissions client subject s = Return ((services, filterRequired, err), s')"
  shows "subseq (elems services) KnownServices"
  using assms
proof (cases rule: getServicePermissions_cases)
  case (failed results e)
  then show ?thesis by simp
next
  case (answered results allowedServices)
  from collectAllowed_subseq [OF answered(2)] answered(3) show ?thesis by simp
qed

text \<open>
  Claim C6. Whenever the service-permission resolution returns (\<open>getServicePermissions\<close>,
  and \<open>GetAllowedServices\<close> around it), the allowed services are a subsequence of
  \<open>KnownServices\<close>, hence a subset of the catalog: nothing outside the catalog can appear,
  whatever the client answers.
\<close>

theorem allowed_services_within_catalog:
  "(getServicePermissions client subject s = Return ((services, filterRequired, err), s')
      \<longrightarrow> subseq (elems services) KnownServices
          \<and> set (elems services) \<subseteq> set KnownServices)
   \<and> (GetAllowedServices client subject s = Return ((services, filterRequired, err), s')
      \<longrightarrow> subseq (elems services) KnownServices
          \<and> set (elems services) \<subseteq> set KnownServices)"
proof (intro conjI impI)
  assume a: "getServicePermissions client subject s = Return ((services, filterRequired, err), s')"
  then show g1: "subseq (elems services) KnownServices"
    by (rule getServicePermissions_within)
  then show "set (elems services) \<subseteq> set KnownServices"
    by (auto dest: list_emb_set)
next
  assume a: "GetAllowedServices client subject s = Return ((services, filterRequired, err), s')"
  obtain b e s1 where c: "Check client (orgCheck subject) s = ((b, e), s1)"
    by (metis prod.exhaust)
  show g2: "subseq (elems services) KnownServices"
  proof (cases "e = None \<and> \<not> b")
    case True
    with a c have "getServicePermissions client subject s1
        = Return ((services, filterRequired, err), s')"
      by (simp add: GetAllowedServices_def)
    then show ?thesis by (rule getServicePermissions_within)
  next
    case False
    with a c have "services = NilSlice"
      by (cases e) (auto simp: GetAllowedServices_def split: if_splits)
    then show ?thesis by simp
  qed
  then show "set (elems services) \<subseteq> set KnownServices"
    by (auto dest: list_emb_set)
qed

theorem allowed_services_within_catalog_witness:
  "getServicePermissions
     (clientImpl (recordingService (\<lambda>req.
        if ResourceId req = ''advisor'' \<or> ResourceId req = ''remediations''
        then Inr ALLOWED_TRUE else Inr ALLOWED_FALSE)))
     jdoe []
     = Return ((Slice [''remediations'', ''advisor''], True, None),
               map (\<lambda>service. toCheckRequest (serviceCheck jdoe service)) KnownServices)
   \<and> GetAllowedServices
     (clientImpl (recordingService (\<lambda>req.
        if ResourceId req = ''advisor'' \<or> ResourceId req = ''remediations''
        then Inr ALLOWED_TRUE else Inr ALLOWED_FALSE)))
     jdoe []
     = Return ((Slice [''remediations'', ''advisor''], True, None),
               toCheckRequest (orgCheck jdoe)
                 # map (\<lambda>service. toCheckRequest (serviceCheck jdoe service)) KnownServices)
   \<and> subseq [''remediations'', ''advisor''] KnownServices
   \<and> set [''remediations'', ''advisor''] \<subseteq> set KnownServices"
proof -
  let ?client = "clientImpl (recordingService (\<lambda>req.
        if ResourceId req = ''advisor'' \<or> ResourceId req = ''remediations''
        then Inr ALLOWED_TRUE else Inr ALLOWED_FALSE))"
  have h1: "getServicePermissions ?client jdoe []
     = Return ((Slice [''remediations'', ''advisor''], True, None),
               map (\<lambda>service. toCheckRequest (serviceCheck jdoe service)) KnownServices)"
    by (simp add: eval_defs)
  have h2: "GetAllowedServices ?client jdoe []
     = Return ((Slice [''remediations'', ''advisor''], True, None),
               toCheckRequest (orgCheck jdoe)
                 # map (\<lambda>service. toCheckRequest (serviceCheck jdoe service)) KnownServices)"
    by (simp add: eval_defs RelationRead_def ResourceTypeOrg_def)
  note t = allowed_services_within_catalog [of ?client jdoe "[]"
      "Slice [''remediations'', ''advisor'']" True None]
  from t [THEN conjunct1, rule_format, OF h1] t [THEN conjunct2, rule_format, OF h2] h1 h2
  show ?thesis by simp
qed


section \<open>The org-level check comes first\<close>

lemma zip_map_filter: "map fst (filter snd (zip xs (map p xs))) = filter p xs"
  by (induction xs) auto

lemma getServicePermissions_answered:
  assumes cb: "CheckBatch client (map (serviceCheck subject) KnownServices) s = ((results, None), s')"
    and le: "len results \<le> length KnownServices"
  shows "getServicePermissions client subject s
     = Return ((let allowedServices = map fst (filter snd (zip KnownServices (elems results)))
                in if allowedServices = [] then NilSlice else Slice allowedServices,
                True, None), s')"
proof -
  from le have "length (elems results) + 0 \<le> length KnownServices"
    by (simp add: len_def)
  from collectAllowed_zip [OF this, of "[]"] cb show ?thesis
    by (simp add: getServicePermissions_def Let_def)
qed

text \<open>
  Claim C4. If the org-level check (relation \<open>read\<close> on the org resource of the subject's
  tenant) answers allow without error, \<open>GetAllowedServices\<close> reports that no filtering is
  required and \<open>HasServiceAccess\<close> grants access, and the client's state is the one left
  by that single check: no per-service check is made. If it answers deny,
  \<open>GetAllowedServices\<close> is exactly the per-service resolution and \<open>HasServiceAccess\<close> is
  exactly the check of the one service; with a batch answer of at most one result per
  catalog entry, the allowed services are the catalog entries whose result is true.
\<close>

theorem org_check_decides:
  "(Check client (orgCheck subject) s = ((True, None), s1)
      \<longrightarrow> GetAllowedServices client subject s = Return ((NilSlice, False, None), s1)
          \<and> HasServiceAccess client subject service s = ((True, None), s1))
   \<and> (Check client (orgCheck subject) s = ((False, None), s1)
      \<longrightarrow> GetAllowedServices client subject s = getServicePermissions client subject s1
          \<and> HasServiceAccess client subject service s
              = Check client (serviceCheck subject service) s1)
   \<and> (Check client (orgCheck subject) s = ((False, None), s1)
        \<and> CheckBatch client (map (serviceCheck subject) KnownServices) s1 = ((results, None), s2)
        \<and> len results \<le> length KnownServices
      \<longrightarrow> GetAllowedServices client subject s
            = Return ((let allowedServices = map fst (filter snd (zip KnownServices (elems results)))
                       in if allowedServices = [] then NilSlice else Slice allowedServices,
                       True, None), s2))"
proof (intro conjI impI)
  assume "Check client (orgCheck subject) s = ((True, None), s1)"
  then show "GetAllowedServices client subject s = Return ((NilSlice, False, None), s1)"
    and "HasServiceAccess client subject service s = ((True, None), s1)"
    by (simp_all add: GetAllowedServices_def HasServiceAccess_def)
next
  assume "Check client (orgCheck subject) s = ((False, None), s1)"
  then show "GetAllowedServices client subject s = getServicePermissions client subject s1"
    and "HasServiceAccess client subject service s = Check client (serviceCheck subject service) s1"
    by (simp_all add: GetAllowedServices_def HasServiceAccess_def)
next
  assume a: "Check client (orgCheck subject) s = ((False, None), s1)
        \<and> CheckBatch client (map (serviceCheck subject) KnownServices) s1 = ((results, None), s2)
        \<and> len results \<le> length KnownServices"
  then have "GetAllowedServices client subject s = getServicePermissions client subject s1"
    by (simp add: GetAllowedServices_def)
  with a getServicePermissions_answered [of client subject s1 results s2]
  show "GetAllowedServices client subject s
            = Return ((let allowedServices = map fst (filter snd (zip KnownServices (elems results)))
                       in if allowedServices = [] then NilSlice else Slice allowedServices,
                       True, None), s2)"
    by simp
qed


theorem org_check_decides_witness:
  "GetAllowedServices
     (clientImpl (recordingService (\<lambda>req.
        if ResourceTypeName req = ResourceTypeOrg then Inr ALLOWED_TRUE else Inr ALLOWED_FALSE)))
     jdoe [] = Return ((NilSlice, False, None), [toCheckRequest (orgCheck jdoe)])
   \<and> HasServiceAccess
     (clientImpl (recordingService (\<lambda>req.
        if ResourceTypeName req = ResourceTypeOrg then Inr ALLOWED_TRUE else Inr ALLOWED_FALSE)))
     jdoe ''drift'' [] = ((True, None), [toCheckRequest (orgCheck jdoe)])
   \<and> GetAllowedServices
     (clientImpl (recordingService (\<lambda>req.
        if ResourceId req = ''drift'' then Inr ALLOWED_TRUE else Inr ALLOWED_FALSE)))
     jdoe [] = Return ((Slice [''drift''], True, None),
        toCheckRequest (orgCheck jdoe)
          # map (\<lambda>service. toCheckRequest (serviceCheck jdoe service)) KnownServices)
   \<and> HasServiceAccess
     (clientImpl (recordingService (\<lambda>req.
        if ResourceId req = ''drift'' then Inr ALLOWED_TRUE else Inr ALLOWED_FALSE)))
     jdoe ''drift'' []
       = ((True, None), [toCheckRequest (orgCheck jdoe), toCheckRequest (serviceCheck jdoe ''drift'')])"
proof -
  let ?org = "clientImpl (recordingService (\<lambda>req.
        if ResourceTypeName req = ResourceTypeOrg then Inr ALLOWED_TRUE else Inr ALLOWED_FALSE))"
  let ?drift = "clientImpl (recordingService (\<lambda>req.
        if ResourceId req = ''drift'' then Inr ALLOWED_TRUE else Inr ALLOWED_FALSE))"
  let ?log1 = "[toCheckRequest (orgCheck jdoe)]"
  let ?log2 = "toCheckRequest (orgCheck jdoe)
          # map (\<lambda>service. toCheckRequest (serviceCheck jdoe service)) KnownServices"
  let ?results = "Slice [False, False, False, False, False, True, False, False]"
  have h1: "Check ?org (orgCheck jdoe) [] = ((True, None), ?log1)"
    by (simp add: eval_defs)
  have h2: "Check ?drift (orgCheck jdoe) [] = ((False, None), ?log1)"
    by (simp add: eval_defs RelationRead_def ResourceTypeOrg_def)
  have h3: "Check ?drift (orgCheck jdoe) [] = ((False, None), ?log1)
        \<and> CheckBatch ?drift (map (serviceCheck jdoe) KnownServices) ?log1 = ((?results, None), ?log2)
        \<and> len ?results \<le> length KnownServices"
    by (simp add: eval_defs RelationRead_def ResourceTypeOrg_def len_def)
  have h4: "Check ?drift (serviceCheck jdoe ''drift'') ?log1
      = ((True, None), [toCheckRequest (orgCheck jdoe), toCheckRequest (serviceCheck jdoe ''drift'')])"
    by (simp add: eval_defs)
  have h5: "(let allowedServices = map fst (filter snd (zip KnownServices (elems ?results)))
             in if allowedServices = [] then NilSlice else Slice allowedServices) = Slice [''drift'']"
    by (simp add: KnownServices_def)
  note t1 = org_check_decides [of ?org jdoe "[]" ?log1 "''drift''", THEN conjunct1, rule_format, OF h1]
  note t2 = org_check_decides [of ?drift jdoe "[]" ?log1 "''drift''", THEN conjunct2, THEN conjunct1, rule_format, OF h2]
  note t3 = org_check_decides [of ?drift jdoe "[]" ?log1 "''drift''" ?results ?log2,
      THEN conjunct2, THEN conjunct2, rule_format, OF h3]
  from t1 t2 t3 h4 h5 show ?thesis
    by simp
qed


section \<open>Deny-all and unrestricted at the output of the service filter\<close>

text \<open>
  Claim C1, as the code has it. \<open>GetAllowedServices\<close> keeps the two states apart: when
  the org-level check denies and every per-service result is deny, it reports that
  filtering is required with no allowed service (a nil list), and when the org-level
  check allows it reports that no filtering is required. \<open>ApplyServiceFilter\<close> does
  not: \<open>FilterByServicePermission\<close> is a placeholder that asks for no filtering and
  \<open>ApplyServiceFilter\<close> treats an empty list as access to all services, so it reports
  "no filtering" for every client, subject and state.
\<close>

theorem GetAllowedServices_keeps_deny_all_apart:
  "(Check client (orgCheck subject) s = ((False, None), s1)
        \<and> CheckBatch client (map (serviceCheck subject) KnownServices) s1 = ((results, None), s2)
        \<and> (\<forall>allowed \<in> set (elems results). \<not> allowed)
      \<longrightarrow> GetAllowedServices client subject s = Return ((NilSlice, True, None), s2))
   \<and> (Check client (orgCheck subject) s = ((True, None), s1)
      \<longrightarrow> GetAllowedServices client subject s = Return ((NilSlice, False, None), s1))
   \<and> ApplyServiceFilter client subject s = ((NilSlice, False, None), s)"
proof (intro conjI impI)
  assume a: "Check client (orgCheck subject) s = ((False, None), s1)
        \<and> CheckBatch client (map (serviceCheck subject) KnownServices) s1 = ((results, None), s2)
        \<and> (\<forall>allowed \<in> set (elems results). \<not> allowed)"
  then have "\<forall>r \<in> set (elems results). \<not> r"
    by blast
  then have "collectAllowed KnownServices (elems results) 0 [] = Return []"
    by (rule collectAllowed_all_False)
  with a show "GetAllowedServices client subject s = Return ((NilSlice, True, None), s2)"
    by (simp add: GetAllowedServices_def getServicePermissions_def)
next
  assume "Check client (orgCheck subject) s = ((True, None), s1)"
  then show "GetAllowedServices client subject s = Return ((NilSlice, False, None), s1)"
    by (simp add: GetAllowedServices_def)
next
  show "ApplyServiceFilter client subject s = ((NilSlice, False, None), s)"
    by (simp add: ApplyServiceFilter_def FilterByServicePermission_def)
qed


theorem GetAllowedServices_keeps_deny_all_apart_witness:
  "GetAllowedServices (NewMockKesselClient False) jdoe () = Return ((NilSlice, True, None), ())
   \<and> GetAllowedServices (NewMockKesselClient True) jdoe () = Return ((NilSlice, False, None), ())"
proof -
  have h1: "Check (NewMockKesselClient False) (orgCheck jdoe) () = ((False, None), ())
        \<and> CheckBatch (NewMockKesselClient False) (map (serviceCheck jdoe) KnownServices) ()
            = ((Slice (replicate 8 False), None), ())
        \<and> (\<forall>allowed \<in> set (elems (Slice (replicate 8 False))). \<not> allowed)"
    by (simp add: NewMockKesselClient_def length_KnownServices)
  have h2: "Check (NewMockKesselClient True) (orgCheck jdoe) () = ((True, None), ())"
    by (simp add: NewMockKesselClient_def)
  note t1 = GetAllowedServices_keeps_deny_all_apart
    [of "NewMockKesselClient False" jdoe "()" "()" "Slice (replicate 8 False)" "()",
     THEN conjunct1, rule_format, OF h1]
  note t2 = GetAllowedServices_keeps_deny_all_apart
    [of "NewMockKesselClient True" jdoe "()" "()",
     THEN conjunct2, THEN conjunct1, rule_format, OF h2]
  from t1 t2 show ?thesis by simp
qed

text \<open>
  The claim as stated fails for \<open>ApplyServiceFilter\<close>: with the mock client that denies
  every check, the subject's org-level and per-service checks all deny, yet
  \<open>ApplyServiceFilter\<close> reports that no filtering is required, the same result as with
  the mock client that allows everything.
\<close>

theorem ApplyServiceFilter_collapses_counterexample:
  "Check (NewMockKesselClient False) (orgCheck jdoe) () = ((False, None), ())
   \<and> CheckBatch (NewMockKesselClient False) (map (serviceCheck jdoe) KnownServices) ()
       = ((Slice [False, False, False, False, False, False, False, False], None), ())
   \<and> ApplyServiceFilter (NewMockKesselClient False) jdoe () = ((NilSlice, False, None), ())
   \<and> ApplyServiceFilter (NewMockKesselClient False) jdoe ()
       = ApplyServiceFilter (NewMockKesselClient True) jdoe ()"
  by (simp add: NewMockKesselClient_def ApplyServiceFilter_def FilterByServicePermission_def
      KnownServices_def)

section \<open>The attribute filters of the Kessel package\<close>

text \<open>
  Claim C3, as the code has it. \<open>GetAttributeFilters\<close> is a placeholder: for every
  client, subject, relation, resource type, attribute key and state it returns the
  empty, non-nil list together with the error "attribute filtering not yet implemented
  in Kessel", and leaves the client untouched.
\<close>

theorem GetAttributeFilters_always_fails:
  "GetAttributeFilters client subject relation resourceType attributeKey s
     = ((Slice [], Some (Errorf ''attribute filtering not yet implemented in Kessel'')), s)"
  by (simp add: GetAttributeFilters_def)

text \<open>The claim as stated fails: the call returns an error, here for the mock client.\<close>

theorem GetAttributeFilters_error_counterexample:
  "snd (fst (GetAttributeFilters (NewMockKesselClient True) jdoe RelationRead ResourceTypeRun
               ''service'' ())) \<noteq> None"
  by (simp add: GetAttributeFilters_def)


section \<open>Service identifiers are used as written\<close>

text \<open>
  Claim C5, as the code has it. Service identifiers are not normalized: the check for a
  service, and the request sent for it, carry the identifier exactly as given; the
  per-service checks of the resolution carry the catalog's own spellings; the catalog
  holds "config-manager" and not "config_manager"; and whenever the resolution returns,
  "config_manager" is not among the allowed services.
\<close>

theorem service_identifiers_verbatim:
  "Resource.ID (Resource (serviceCheck subject service)) = service
   \<and> ResourceId (toCheckRequest (serviceCheck subject service)) = service
   \<and> map (\<lambda>check. Resource.ID (Resource check)) (map (serviceCheck subject) KnownServices)
       = KnownServices
   \<and> ''config-manager'' \<in> set KnownServices
   \<and> ''config_manager'' \<notin> set KnownServices
   \<and> (getServicePermissions client subject s = Return ((services, filterRequired, err), s')
      \<longrightarrow> ''config_manager'' \<notin> set (elems services))"
proof (intro conjI impI)
  show "Resource.ID (Resource (serviceCheck subject service)) = service"
    by (simp add: serviceCheck_def)
  show "ResourceId (toCheckRequest (serviceCheck subject service)) = service"
    by (simp add: serviceCheck_def toCheckRequest_def)
  show "map (\<lambda>check. Resource.ID (Resource check)) (map (serviceCheck subject) KnownServices)
       = KnownServices"
    by (simp add: serviceCheck_def comp_def)
  show "''config-manager'' \<in> set KnownServices"
    by (simp add: KnownServices_def)
  show n: "''config_manager'' \<notin> set KnownServices"
    by (simp add: KnownServices_def)
  assume "getServicePermissions client subject s = Return ((services, filterRequired, err), s')"
  then have "subseq (elems services) KnownServices"
    by (rule getServicePermissions_within)
  with n show "''config_manager'' \<notin> set (elems services)"
    by (auto dest: list_emb_set)
qed


theorem service_identifiers_verbatim_witness:
  "getServicePermissions
     (clientImpl (recordingService (\<lambda>req.
        if ResourceId req = ''config_manager'' \<or> ResourceId req = ''remediations''
        then Inr ALLOWED_TRUE else Inr ALLOWED_FALSE)))
     jdoe []
     = Return ((Slice [''remediations''], True, None),
               map (\<lambda>service. toCheckRequest (serviceCheck jdoe service)) KnownServices)
   \<and> ''config_manager'' \<notin> set [''remediations'']"
proof -
  let ?client = "clientImpl (recordingService (\<lambda>req.
        if ResourceId req = ''config_manager'' \<or> ResourceId req = ''remediations''
        then Inr ALLOWED_TRUE else Inr ALLOWED_FALSE))"
  have h: "getServicePermissions ?client jdoe []
     = Return ((Slice [''remediations''], True, None),
               map (\<lambda>service. toCheckRequest (serviceCheck jdoe service)) KnownServices)"
    by (simp add: eval_defs)
  note t = service_identifiers_verbatim [of jdoe "''remediations''" ?client "[]"
      "Slice [''remediations'']" True None
      "map (\<lambda>service. toCheckRequest (serviceCheck jdoe service)) KnownServices"]
  from t [THEN conjunct2, THEN conjunct2, THEN conjunct2, THEN conjunct2, THEN conjunct2,
          rule_format, OF h] h
  show ?thesis by simp
qed

text \<open>
  The claim as stated fails: a grant on the resource "config-manager" allows that
  service, the same grant spelled "config_manager" allows nothing, and with the
  hyphenated grant \<open>HasServiceAccess\<close> answers allow for "config-manager" and deny for
  "config_manager".
\<close>

theorem spellings_differ_counterexample:
  "getServicePermissions
     (clientImpl (recordingService (\<lambda>req.
        if ResourceId req = ''config-manager'' then Inr ALLOWED_TRUE else Inr ALLOWED_FALSE)))
     jdoe []
     = Return ((Slice [''config-manager''], True, None),
               map (\<lambda>service. toCheckRequest (serviceCheck jdoe service)) KnownServices)
   \<and> getServicePermissions
     (clientImpl (recordingService (\<lambda>req.
        if ResourceId req = ''config_manager'' then Inr ALLOWED_TRUE else Inr ALLOWED_FALSE)))
     jdoe []
     = Return ((NilSlice, True, None),
               map (\<lambda>service. toCheckRequest (serviceCheck jdoe service)) KnownServices)
   \<and> fst (HasServiceAccess
     (clientImpl (recordingService (\<lambda>req.
        if ResourceId req = ''config-manager'' then Inr ALLOWED_TRUE else Inr ALLOWED_FALSE)))
     jdoe ''config-manager'' []) = (True, None)
   \<and> fst (HasServiceAccess
     (clientImpl (recordingService (\<lambda>req.
        if ResourceId req = ''config-manager'' then Inr ALLOWED_TRUE else Inr ALLOWED_FALSE)))
     jdoe ''config_manager'' []) = (False, None)"
  by (simp add: eval_defs)


section \<open>A failing check fails the whole batch\<close>

text \<open>
  The batch loop of the gRPC client against a service that answers by \<open>answer\<close>: if
  every request is answered, the results are the answers compared with \<open>ALLOWED_TRUE\<close>;
  if one is not, the batch ends at the first such request with nil results.
\<close>

lemma CheckBatch_loop_answers:
  assumes "\<forall>r \<in> set items. \<exists>a. answer r = Inr a"
    and "i + length items = length results"
  shows "CheckBatch_loop (recordingService answer) items i results log
     = ((Slice (take i results @ map (\<lambda>r. answer r = Inr ALLOWED_TRUE) items), None), log @ items)"
  using assms
proof (induction items arbitrary: i results log)
  case Nil
  then show ?case by simp
next
  case (Cons item items)
  from Cons.prems(1) obtain a where a: "answer item = Inr a" by auto
  from Cons.prems(2) have lt: "i < length results" by simp
  let ?results = "results[i := (a = ALLOWED_TRUE)]"
  have tk: "take (Suc i) ?results = take i results @ [a = ALLOWED_TRUE]"
    using lt by (simp add: take_Suc_conv_app_nth)
  have "CheckBatch_loop (recordingService answer) items (Suc i) ?results (log @ [item])
     = ((Slice (take (Suc i) ?results @ map (\<lambda>r. answer r = Inr ALLOWED_TRUE) items), None),
        (log @ [item]) @ items)"
    using Cons.prems by (intro Cons.IH) simp_all
  with a tk show ?case
    by (simp add: recordingService_def)
qed

lemma CheckBatch_loop_first_error:
  assumes "\<forall>r \<in> set pre. \<exists>a. answer r = Inr a"
    and "answer bad = Inl e"
  shows "CheckBatch_loop (recordingService answer) (pre @ bad # post) i results log
     = ((NilSlice, Some (BatchCheckFailed (i + length pre) e)), log @ pre @ [bad])"
  using assms
proof (induction pre arbitrary: i results log)
  case Nil
  then show ?case by (simp add: recordingService_def)
next
  case (Cons item pre)
  from Cons.prems(1) obtain a where a: "answer item = Inr a" by auto
  have "CheckBatch_loop (recordingService answer) (pre @ bad # post) (Suc i)
          (results[i := (a = ALLOWED_TRUE)]) (log @ [item])
     = ((NilSlice, Some (BatchCheckFailed (Suc i + length pre) e)), (log @ [item]) @ pre @ [bad])"
    using Cons.prems by (intro Cons.IH) simp_all
  with a show ?case
    by (simp add: recordingService_def)
qed

lemma clientImpl_CheckBatch_answers:
  assumes "\<forall>c \<in> set checks. \<exists>a. answer (toCheckRequest c) = Inr a"
  shows "CheckBatch (clientImpl (recordingService answer)) checks log
     = ((Slice (map (\<lambda>c. answer (toCheckRequest c) = Inr ALLOWED_TRUE) checks), None),
        log @ map toCheckRequest checks)"
proof -
  have "CheckBatch_loop (recordingService answer) (map toCheckRequest checks) 0
          (replicate (length checks) False) log
     = ((Slice (take 0 (replicate (length checks) False)
               @ map (\<lambda>r. answer r = Inr ALLOWED_TRUE) (map toCheckRequest checks)), None),
        log @ map toCheckRequest checks)"
    using assms by (intro CheckBatch_loop_answers) simp_all
  then show ?thesis
    by (simp add: clientImpl_def clientImpl_CheckBatch_def comp_def)
qed

lemma clientImpl_CheckBatch_first_error:
  assumes i: "i < length checks"
    and bad: "answer (toCheckRequest (checks ! i)) = Inl e"
    and pre: "\<forall>j<i. \<exists>a. answer (toCheckRequest (checks ! j)) = Inr a"
  shows "CheckBatch (clientImpl (recordingService answer)) checks log
     = ((NilSlice, Some (BatchCheckFailed i e)), log @ map toCheckRequest (take (Suc i) checks))"
proof -
  let ?items = "map toCheckRequest checks"
  have split: "?items = take i ?items @ ?items ! i # drop (Suc i) ?items"
    using i by (intro id_take_nth_drop) simp
  have ok: "\<forall>r \<in> set (take i ?items). \<exists>a. answer r = Inr a"
  proof
    fix r assume "r \<in> set (take i ?items)"
    then obtain j where "j < i" "r = ?items ! j"
      using i by (auto simp: in_set_conv_nth)
    with pre i show "\<exists>a. answer r = Inr a" by simp
  qed
  have b: "answer (?items ! i) = Inl e"
    using i bad by simp
  have "CheckBatch_loop (recordingService answer)
          (take i ?items @ ?items ! i # drop (Suc i) ?items) 0
          (replicate (length checks) False) log
     = ((NilSlice, Some (BatchCheckFailed (0 + length (take i ?items)) e)),
        log @ take i ?items @ [?items ! i])"
    using ok b by (rule CheckBatch_loop_first_error)
  moreover have "take i ?items @ [?items ! i] = map toCheckRequest (take (Suc i) checks)"
    using i by (simp add: take_Suc_conv_app_nth take_map)
  moreover have "length (take i ?items) = i"
    using i by simp
  ultimately have "CheckBatch_loop (recordingService answer) ?items 0
          (replicate (length checks) False) log
     = ((NilSlice, Some (BatchCheckFailed i e)), log @ map toCheckRequest (take (Suc i) checks))"
    using split by simp
  then show ?thesis
    by (simp add: clientImpl_def clientImpl_CheckBatch_def)
qed


text \<open>
  Claim C2, as the code has it. A per-service check that returns an error is not
  treated as a deny for that service: \<open>getServicePermissions\<close> hands on whatever error
  the batch check returns, with nil services and \<open>filterRequired = false\<close>; and the batch
  check of the gRPC client stops at the first failing check (index \<open>i\<close>), returns
  "kessel batch check failed at index i" around its error, and issues no further
  check. Only when no check fails does the resolution succeed, and then the allowed
  services are exactly the catalog entries whose check answered \<open>ALLOWED_TRUE\<close>.
\<close>

theorem check_error_fails_resolution:
  "(CheckBatch client (map (serviceCheck subject) KnownServices) s = ((results, Some err), s')
      \<longrightarrow> getServicePermissions client subject s = Return ((NilSlice, False, Some err), s'))
   \<and> (i < length KnownServices
        \<and> answer (toCheckRequest (serviceCheck subject (KnownServices ! i))) = Inl e
        \<and> (\<forall>j<i. \<exists>a. answer (toCheckRequest (serviceCheck subject (KnownServices ! j))) = Inr a)
      \<longrightarrow> getServicePermissions (clientImpl (recordingService answer)) subject log
            = Return ((NilSlice, False, Some (BatchCheckFailed i e)),
                log @ map (\<lambda>service. toCheckRequest (serviceCheck subject service))
                        (take (Suc i) KnownServices)))
   \<and> ((\<forall>service \<in> set KnownServices.
          \<exists>a. answer (toCheckRequest (serviceCheck subject service)) = Inr a)
      \<longrightarrow> getServicePermissions (clientImpl (recordingService answer)) subject log
            = Return ((let allowedServices =
                         filter (\<lambda>service. answer (toCheckRequest (serviceCheck subject service))
                                             = Inr ALLOWED_TRUE) KnownServices
                       in if allowedServices = [] then NilSlice else Slice allowedServices,
                       True, None),
                log @ map (\<lambda>service. toCheckRequest (serviceCheck subject service)) KnownServices))"
proof (intro conjI impI)
  assume "CheckBatch client (map (serviceCheck subject) KnownServices) s = ((results, Some err), s')"
  then show "getServicePermissions client subject s = Return ((NilSlice, False, Some err), s')"
    by (simp add: getServicePermissions_def)
next
  let ?checks = "map (serviceCheck subject) KnownServices"
  assume a: "i < length KnownServices
        \<and> answer (toCheckRequest (serviceCheck subject (KnownServices ! i))) = Inl e
        \<and> (\<forall>j<i. \<exists>a. answer (toCheckRequest (serviceCheck subject (KnownServices ! j))) = Inr a)"
  then have i: "i < length ?checks"
    and bad: "answer (toCheckRequest (?checks ! i)) = Inl e"
    and pre: "\<forall>j<i. \<exists>a. answer (toCheckRequest (?checks ! j)) = Inr a"
    by simp_all
  have "CheckBatch (clientImpl (recordingService answer)) ?checks log
     = ((NilSlice, Some (BatchCheckFailed i e)), log @ map toCheckRequest (take (Suc i) ?checks))"
    using i bad pre by (rule clientImpl_CheckBatch_first_error)
  then show "getServicePermissions (clientImpl (recordingService answer)) subject log
            = Return ((NilSlice, False, Some (BatchCheckFailed i e)),
                log @ map (\<lambda>service. toCheckRequest (serviceCheck subject service))
                        (take (Suc i) KnownServices))"
    by (simp add: getServicePermissions_def take_map comp_def)
next
  let ?checks = "map (serviceCheck subject) KnownServices"
  let ?p = "\<lambda>service. answer (toCheckRequest (serviceCheck subject service)) = Inr ALLOWED_TRUE"
  assume "\<forall>service \<in> set KnownServices.
          \<exists>a. answer (toCheckRequest (serviceCheck subject service)) = Inr a"
  then have "\<forall>c \<in> set ?checks. \<exists>a. answer (toCheckRequest c) = Inr a"
    by simp
  then have cb: "CheckBatch (clientImpl (recordingService answer)) ?checks log
     = ((Slice (map (\<lambda>c. answer (toCheckRequest c) = Inr ALLOWED_TRUE) ?checks), None),
        log @ map toCheckRequest ?checks)"
    by (rule clientImpl_CheckBatch_answers)
  have m: "map (\<lambda>c. answer (toCheckRequest c) = Inr ALLOWED_TRUE) ?checks = map ?p KnownServices"
    by (simp add: comp_def)
  have "len (Slice (map ?p KnownServices)) \<le> length KnownServices"
    by (simp add: len_def)
  with cb m have "getServicePermissions (clientImpl (recordingService answer)) subject log
     = Return ((let allowedServices =
                  map fst (filter snd (zip KnownServices (elems (Slice (map ?p KnownServices)))))
                in if allowedServices = [] then NilSlice else Slice allowedServices,
                True, None), log @ map toCheckRequest ?checks)"
    by (intro getServicePermissions_answered) simp_all
  then show "getServicePermissions (clientImpl (recordingService answer)) subject log
            = Return ((let allowedServices = filter ?p KnownServices
                       in if allowedServices = [] then NilSlice else Slice allowedServices,
                       True, None),
                log @ map (\<lambda>service. toCheckRequest (serviceCheck subject service)) KnownServices)"
    by (simp add: zip_map_filter comp_def)
qed

text \<open>
  The claim as stated fails in the scenario of the specification: the check for
  "remediations" succeeds with allow, the one for "config-manager" with deny, the one
  for "vulnerability" fails, and the resolution returns a top-level error and no
  services.
\<close>

theorem partial_failure_counterexample:
  "scenario (toCheckRequest (serviceCheck jdoe ''remediations'')) = Inr ALLOWED_TRUE
   \<and> scenario (toCheckRequest (serviceCheck jdoe ''config-manager'')) = Inr ALLOWED_FALSE
   \<and> scenario (toCheckRequest (serviceCheck jdoe ''vulnerability'')) = Inl (Errorf ''unavailable'')
   \<and> getServicePermissions (clientImpl (recordingService scenario)) jdoe []
       = Return ((NilSlice, False, Some (BatchCheckFailed 2 (Errorf ''unavailable''))),
           [toCheckRequest (serviceCheck jdoe ''remediations''),
            toCheckRequest (serviceCheck jdoe ''config-manager''),
            toCheckRequest (serviceCheck jdoe ''vulnerability'')])"
  by (simp add: eval_defs scenario_def)


theorem check_error_fails_resolution_witness:
  "getServicePermissions (clientImpl (recordingService
       (\<lambda>req. if ResourceId req = ''config-manager'' then Inl (Errorf ''timeout'')
               else Inr ALLOWED_TRUE))) jdoe []
     = Return ((NilSlice, False, Some (BatchCheckFailed 1 (Errorf ''timeout''))),
         [toCheckRequest (serviceCheck jdoe ''remediations''),
          toCheckRequest (serviceCheck jdoe ''config-manager'')])
   \<and> getServicePermissions (clientImpl (recordingService
       (\<lambda>req. if ResourceId req = ''config-manager'' then Inl (Errorf ''timeout'')
               else Inr ALLOWED_TRUE))) jdoe []
     = Return ((NilSlice, False, Some (BatchCheckFailed 1 (Errorf ''timeout''))),
         [] @ map (\<lambda>service. toCheckRequest (serviceCheck jdoe service))
                (take (Suc 1) KnownServices))
   \<and> getServicePermissions (clientImpl (recordingService
       (\<lambda>req. if ResourceId req = ''policies'' then Inr ALLOWED_TRUE
               else Inr ALLOWED_UNSPECIFIED))) jdoe []
     = Return ((Slice [''policies''], True, None),
         map (\<lambda>service. toCheckRequest (serviceCheck jdoe service)) KnownServices)"
proof -
  let ?bad = "\<lambda>req. if ResourceId req = ''config-manager'' then Inl (Errorf ''timeout'')
               else Inr ALLOWED_TRUE"
  let ?good = "\<lambda>req. if ResourceId req = ''policies'' then Inr ALLOWED_TRUE
               else Inr ALLOWED_UNSPECIFIED"
  have h1: "CheckBatch (clientImpl (recordingService ?bad)) (map (serviceCheck jdoe) KnownServices) []
      = ((NilSlice, Some (BatchCheckFailed 1 (Errorf ''timeout''))),
         [toCheckRequest (serviceCheck jdoe ''remediations''),
          toCheckRequest (serviceCheck jdoe ''config-manager'')])"
    by (simp add: eval_defs)
  have h2: "1 < length KnownServices
        \<and> ?bad (toCheckRequest (serviceCheck jdoe (KnownServices ! 1))) = Inl (Errorf ''timeout'')
        \<and> (\<forall>j<1. \<exists>a. ?bad (toCheckRequest (serviceCheck jdoe (KnownServices ! j))) = Inr a)"
    by (simp add: eval_defs)
  have h3: "\<forall>service \<in> set KnownServices.
          \<exists>a. ?good (toCheckRequest (serviceCheck jdoe service)) = Inr a"
    by simp
  note t1 = check_error_fails_resolution [of "clientImpl (recordingService ?bad)" jdoe "[]" NilSlice
      "BatchCheckFailed 1 (Errorf ''timeout'')" _ 1 ?bad "Errorf ''timeout''" "[]",
      THEN conjunct1, THEN mp, OF h1]
  note t2 = check_error_fails_resolution [of _ jdoe _ _ _ _ 1 ?bad "Errorf ''timeout''" "[]",
      THEN conjunct2, THEN conjunct1, THEN mp, OF h2]
  note t3 = check_error_fails_resolution [of _ jdoe _ _ _ _ _ ?good _ "[]",
      THEN conjunct2, THEN conjunct2, THEN mp, OF h3]
  have f: "filter (\<lambda>service. ?good (toCheckRequest (serviceCheck jdoe service)) = Inr ALLOWED_TRUE)
             KnownServices = [''policies'']"
    by (simp add: eval_defs)
  have c3: "getServicePermissions (clientImpl (recordingService ?good)) jdoe []
     = Return ((Slice [''policies''], True, None),
         map (\<lambda>service. toCheckRequest (serviceCheck jdoe service)) KnownServices)"
    using t3 unfolding f by simp
  from t1 t2 c3 show ?thesis
    by (intro conjI)
qed


section \<open>The middleware fails closed\<close>

text \<open>
  Claim C7. For a request with an identity and an extracted resource, if the
  authorization check returns an error or answers not-allowed, the middleware's result
  does not depend on the protected handler (it is the same for any two handlers), it
  is an HTTP error, and the response of the request is untouched: the handler is not
  invoked. An error gives 503 and records the error, a deny gives 403 and records the
  rejection; only an allow without error reaches the handler. \<open>CheckWithAttributes\<close>
  answers false on an error (handing the error on) and on a deny, and the gRPC client
  turns an error of the service into \<open>(false, error)\<close>, never into an allow.
  \<open>EnforceKesselPermissions\<close> returns this handler, on the mock client that allows
  everything unless \<open>kessel.impl\<close> is "impl", and on the connected client otherwise.
\<close>

theorem middleware_fails_closed:
  "(OrgID (identity c) \<noteq> [] \<and> Username (identity c) \<noteq> []
      \<and> resourceExtractor c = (resource, None)
      \<and> Check client
           \<lparr> Subject = \<lparr> Subject.Type = SubjectTypeUser, Subject.ID = Username (identity c),
                         Subject.Tenant = OrgID (identity c) \<rparr>,
             Relation = relation, Resource = resource \<rparr> (kessel c) = ((allowed, err), s')
      \<and> (err \<noteq> None \<or> \<not> allowed)
      \<longrightarrow> enforceWithClient client relation resourceExtractor next c
            = enforceWithClient client relation resourceExtractor next' c
          \<and> (\<exists>code message.
               fst (enforceWithClient client relation resourceExtractor next c)
                 = Some (HTTPError code message))
          \<and> response (snd (enforceWithClient client relation resourceExtractor next c))
               = response c)
   \<and> (OrgID (identity c) \<noteq> [] \<and> Username (identity c) \<noteq> []
      \<and> resourceExtractor c = (resource, None)
      \<and> Check client
           \<lparr> Subject = \<lparr> Subject.Type = SubjectTypeUser, Subject.ID = Username (identity c),
                         Subject.Tenant = OrgID (identity c) \<rparr>,
             Relation = relation, Resource = resource \<rparr> (kessel c) = ((allowed, Some e), s')
      \<longrightarrow> enforceWithClient client relation resourceExtractor next c
          = (Some (HTTPError StatusServiceUnavailable ''error checking permissions with Kessel''),
             c\<lparr> kessel := s', instrumentation := (instrumentation c) @ [RbacError e] \<rparr>))
   \<and> (OrgID (identity c) \<noteq> [] \<and> Username (identity c) \<noteq> []
      \<and> resourceExtractor c = (resource, None)
      \<and> Check client
           \<lparr> Subject = \<lparr> Subject.Type = SubjectTypeUser, Subject.ID = Username (identity c),
                         Subject.Tenant = OrgID (identity c) \<rparr>,
             Relation = relation, Resource = resource \<rparr> (kessel c) = ((False, None), s')
      \<longrightarrow> enforceWithClient client relation resourceExtractor next c
          = (Some (HTTPError StatusForbidden ''Forbidden''),
             c\<lparr> kessel := s', instrumentation := (instrumentation c) @ [RbacRejected] \<rparr>))
   \<and> (OrgID (identity c) \<noteq> [] \<and> Username (identity c) \<noteq> []
      \<and> resourceExtractor c = (resource, None)
      \<and> Check client
           \<lparr> Subject = \<lparr> Subject.Type = SubjectTypeUser, Subject.ID = Username (identity c),
                         Subject.Tenant = OrgID (identity c) \<rparr>,
             Relation = relation, Resource = resource \<rparr> (kessel c) = ((True, None), s')
      \<longrightarrow> enforceWithClient client relation resourceExtractor next c
          = next (c\<lparr> kessel := s',
                      kesselPermissions := Some \<lparr> Subject.Type = SubjectTypeUser,
                          Subject.ID = Username (identity c),
                          Subject.Tenant = OrgID (identity c) \<rparr> \<rparr>))
   \<and> (Check client check s = ((allowed, Some e), s1)
      \<longrightarrow> CheckWithAttributes client check attributes s = ((False, Some e), s1))
   \<and> (Check client check s = ((False, None), s1)
      \<longrightarrow> CheckWithAttributes client check attributes s = ((False, None), s1))
   \<and> (checkClient (toCheckRequest check) r = (Inl e, r')
      \<longrightarrow> Check (clientImpl checkClient) check r = ((False, Some (CheckFailed e)), r'))
   \<and> (kessel_impl cfg \<noteq> ''impl''
      \<longrightarrow> EnforceKesselPermissions cfg relation resourceExtractor
          = Return (enforceWithClient (NewMockKesselClient True) relation resourceExtractor))
   \<and> (kessel_impl cfg = ''impl'' \<and> dial cfg = Inr checkClient
      \<longrightarrow> EnforceKesselPermissions cfg relation resourceExtractor
          = Return (enforceWithClient (clientImpl checkClient) relation resourceExtractor))"
proof (intro conjI impI)
  assume a: "OrgID (identity c) \<noteq> [] \<and> Username (identity c) \<noteq> []
      \<and> resourceExtractor c = (resource, None)
      \<and> Check client
           \<lparr> Subject = \<lparr> Subject.Type = SubjectTypeUser, Subject.ID = Username (identity c),
                         Subject.Tenant = OrgID (identity c) \<rparr>,
             Relation = relation, Resource = resource \<rparr> (kessel c) = ((allowed, err), s')
      \<and> (err \<noteq> None \<or> \<not> allowed)"
  then show "enforceWithClient client relation resourceExtractor next c
            = enforceWithClient client relation resourceExtractor next' c"
    by (cases err) (auto simp: enforceWithClient_def)
  from a show "\<exists>code message.
               fst (enforceWithClient client relation resourceExtractor next c)
                 = Some (HTTPError code message)"
    by (cases err) (auto simp: enforceWithClient_def)
  from a show "response (snd (enforceWithClient client relation resourceExtractor next c))
               = response c"
    by (cases err) (auto simp: enforceWithClient_def)
qed (simp_all add: enforceWithClient_def CheckWithAttributes_def clientImpl_def clientImpl_Check_def
      EnforceKesselPermissions_def NewKesselClient_def)


theorem middleware_fails_closed_witness:
  "enforceWithClient (clientImpl (recordingService (\<lambda>req. Inl (Errorf ''unavailable''))))
       RelationRead runExtractor respondOK (jdoeRequest [])
     = (Some (HTTPError 503 ''error checking permissions with Kessel''),
        (jdoeRequest [toCheckRequest (DispatcherRunCheck jdoe RelationRead ''r1'')])
          \<lparr> instrumentation := [RbacError (CheckFailed (Errorf ''unavailable''))] \<rparr>)
   \<and> enforceWithClient (clientImpl (recordingService (\<lambda>req. Inr ALLOWED_FALSE)))
       RelationRead runExtractor respondOK (jdoeRequest [])
     = (Some (HTTPError 403 ''Forbidden''),
        (jdoeRequest [toCheckRequest (DispatcherRunCheck jdoe RelationRead ''r1'')])
          \<lparr> instrumentation := [RbacRejected] \<rparr>)
   \<and> enforceWithClient (clientImpl (recordingService (\<lambda>req. Inr ALLOWED_TRUE)))
       RelationRead runExtractor respondOK (jdoeRequest [])
     = (None,
        (jdoeRequest [toCheckRequest (DispatcherRunCheck jdoe RelationRead ''r1'')])
          \<lparr> kesselPermissions := Some jdoe, response := Some (200, ''ok'') \<rparr>)
   \<and> CheckWithAttributes (clientImpl (recordingService (\<lambda>req. Inl (Errorf ''unavailable''))))
       (DispatcherRunCheck jdoe RelationRead ''r1'') Map.empty []
     = ((False, Some (CheckFailed (Errorf ''unavailable''))),
        [toCheckRequest (DispatcherRunCheck jdoe RelationRead ''r1'')])
   \<and> CheckWithAttributes (clientImpl (recordingService (\<lambda>req. Inr ALLOWED_UNSPECIFIED)))
       (DispatcherRunCheck jdoe RelationRead ''r1'') Map.empty []
     = ((False, None), [toCheckRequest (DispatcherRunCheck jdoe RelationRead ''r1'')])
   \<and> EnforceKesselPermissions (kesselOn (\<lambda>req. Inr ALLOWED_FALSE)) RelationRead runExtractor
     = Return (enforceWithClient (clientImpl (recordingService (\<lambda>req. Inr ALLOWED_FALSE)))
                 RelationRead runExtractor)
   \<and> EnforceKesselPermissions (kesselOff :: (CheckRequest list) Config) RelationRead runExtractor
     = Return (enforceWithClient (NewMockKesselClient True) RelationRead runExtractor)"
proof -
  let ?down = "clientImpl (recordingService (\<lambda>req. Inl (Errorf ''unavailable'')))"
  let ?deny = "clientImpl (recordingService (\<lambda>req. Inr ALLOWED_FALSE))"
  let ?allow = "clientImpl (recordingService (\<lambda>req. Inr ALLOWED_TRUE))"
  let ?unspec = "clientImpl (recordingService (\<lambda>req. Inr ALLOWED_UNSPECIFIED))"
  let ?check = "DispatcherRunCheck jdoe RelationRead ''r1''"
  let ?resource = "\<lparr> Resource.Type = ResourceTypeRun, Resource.ID = ''r1'',
                     Resource.Tenant = ''org1'' \<rparr>"
  let ?c = "jdoeRequest [] :: (CheckRequest list) Context"
  let ?subject = "\<lparr> Subject.Type = SubjectTypeUser, Subject.ID = Username (identity ?c),
                         Subject.Tenant = OrgID (identity ?c) \<rparr>"
  have pre: "OrgID (identity ?c) \<noteq> [] \<and> Username (identity ?c) \<noteq> []
      \<and> runExtractor ?c = (?resource, None)"
    by (simp add: jdoeRequest_def runExtractor_def)
  have sc: "\<lparr> Subject = ?subject, Relation = RelationRead, Resource = ?resource \<rparr> = ?check"
    by (simp add: jdoeRequest_def jdoe_def DispatcherRunCheck_def DispatcherResourceCheck_def
        SubjectTypeUser_def)
  have h8: "recordingService (\<lambda>req. Inl (Errorf ''unavailable'')) (toCheckRequest ?check) []
      = (Inl (Errorf ''unavailable''), [toCheckRequest ?check])"
    by (simp add: recordingService_def)
  note d = middleware_fails_closed [where check = ?check and r = "[]"
      and checkClient = "recordingService (\<lambda>req. Inl (Errorf ''unavailable''))"
      and e = "Errorf ''unavailable''" and r' = "[toCheckRequest ?check]",
      THEN conjunct2, THEN conjunct2, THEN conjunct2, THEN conjunct2, THEN conjunct2,
      THEN conjunct2, THEN conjunct1, THEN mp, OF h8]
  have n: "Check ?deny ?check [] = ((False, None), [toCheckRequest ?check])"
    by (simp add: clientImpl_def clientImpl_Check_def recordingService_def)
  have y: "Check ?allow ?check [] = ((True, None), [toCheckRequest ?check])"
    by (simp add: clientImpl_def clientImpl_Check_def recordingService_def)
  have u: "Check ?unspec ?check [] = ((False, None), [toCheckRequest ?check])"
    by (simp add: clientImpl_def clientImpl_Check_def recordingService_def)
  have k: "kessel ?c = []"
    by (simp add: jdoeRequest_def)
  have h1: "OrgID (identity ?c) \<noteq> [] \<and> Username (identity ?c) \<noteq> []
      \<and> runExtractor ?c = (?resource, None)
      \<and> Check ?down \<lparr> Subject = ?subject, Relation = RelationRead, Resource = ?resource \<rparr> (kessel ?c)
          = ((False, Some (CheckFailed (Errorf ''unavailable''))), [toCheckRequest ?check])"
    using pre d by (simp add: sc k)
  have h2: "OrgID (identity ?c) \<noteq> [] \<and> Username (identity ?c) \<noteq> []
      \<and> runExtractor ?c = (?resource, None)
      \<and> Check ?deny \<lparr> Subject = ?subject, Relation = RelationRead, Resource = ?resource \<rparr> (kessel ?c)
          = ((False, None), [toCheckRequest ?check])"
    using pre n by (simp add: sc k)
  have h3: "OrgID (identity ?c) \<noteq> [] \<and> Username (identity ?c) \<noteq> []
      \<and> runExtractor ?c = (?resource, None)
      \<and> Check ?allow \<lparr> Subject = ?subject, Relation = RelationRead, Resource = ?resource \<rparr> (kessel ?c)
          = ((True, None), [toCheckRequest ?check])"
    using pre y by (simp add: sc k)
  have h0: "OrgID (identity ?c) \<noteq> [] \<and> Username (identity ?c) \<noteq> []
      \<and> runExtractor ?c = (?resource, None)
      \<and> Check ?deny \<lparr> Subject = ?subject, Relation = RelationRead, Resource = ?resource \<rparr> (kessel ?c)
          = ((False, None), [toCheckRequest ?check])
      \<and> (None \<noteq> (None :: error option) \<or> \<not> False)"
    using h2 by simp
  note t0 = middleware_fails_closed [where c = ?c and resourceExtractor = runExtractor
      and resource = ?resource and client = ?deny and relation = RelationRead
      and allowed = False and err = None and s' = "[toCheckRequest ?check]"
      and ?next = respondOK and ?next' = "\<lambda>c. (None, c)", THEN conjunct1, THEN mp, OF h0]
  note t1 = middleware_fails_closed [where c = ?c and resourceExtractor = runExtractor
      and resource = ?resource and client = ?down and relation = RelationRead
      and allowed = False and e = "CheckFailed (Errorf ''unavailable'')"
      and s' = "[toCheckRequest ?check]" and ?next = respondOK,
      THEN conjunct2, THEN conjunct1, THEN mp, OF h1]
  note t2 = middleware_fails_closed [where c = ?c and resourceExtractor = runExtractor
      and resource = ?resource and client = ?deny and relation = RelationRead
      and s' = "[toCheckRequest ?check]" and ?next = respondOK,
      THEN conjunct2, THEN conjunct2, THEN conjunct1, THEN mp, OF h2]
  note t3 = middleware_fails_closed [where c = ?c and resourceExtractor = runExtractor
      and resource = ?resource and client = ?allow and relation = RelationRead
      and s' = "[toCheckRequest ?check]" and ?next = respondOK,
      THEN conjunct2, THEN conjunct2, THEN conjunct2, THEN conjunct1, THEN mp, OF h3]
  note t4 = middleware_fails_closed [where client = ?down and allowed = False
      and e = "CheckFailed (Errorf ''unavailable'')" and check = ?check and s = "[]"
      and ?s1.0 = "[toCheckRequest ?check]" and attributes = Map.empty,
      THEN conjunct2, THEN conjunct2, THEN conjunct2, THEN conjunct2, THEN conjunct1, THEN mp, OF d]
  note t5 = middleware_fails_closed [where client = ?unspec and check = ?check and s = "[]"
      and ?s1.0 = "[toCheckRequest ?check]" and attributes = Map.empty,
      THEN conjunct2, THEN conjunct2, THEN conjunct2, THEN conjunct2, THEN conjunct2,
      THEN conjunct1, THEN mp, OF u]
  have c1: "enforceWithClient ?down RelationRead runExtractor respondOK ?c
     = (Some (HTTPError 503 ''error checking permissions with Kessel''),
        (jdoeRequest [toCheckRequest ?check])
          \<lparr> instrumentation := [RbacError (CheckFailed (Errorf ''unavailable''))] \<rparr>)"
    using t1 by (simp add: jdoeRequest_def StatusServiceUnavailable_def)
  have c2: "enforceWithClient ?deny RelationRead runExtractor respondOK ?c
     = (Some (HTTPError 403 ''Forbidden''),
        (jdoeRequest [toCheckRequest ?check]) \<lparr> instrumentation := [RbacRejected] \<rparr>)"
    using t2 t0 by (simp add: jdoeRequest_def StatusForbidden_def)
  have c3: "enforceWithClient ?allow RelationRead runExtractor respondOK ?c
     = (None, (jdoeRequest [toCheckRequest ?check])
          \<lparr> kesselPermissions := Some jdoe, response := Some (200, ''ok'') \<rparr>)"
    using t3 by (simp add: jdoeRequest_def respondOK_def jdoe_def SubjectTypeUser_def)
  have h6: "kessel_impl (kesselOn (\<lambda>req. Inr ALLOWED_FALSE)) = ''impl''
      \<and> dial (kesselOn (\<lambda>req. Inr ALLOWED_FALSE)) = Inr (recordingService (\<lambda>req. Inr ALLOWED_FALSE))"
    by (simp add: kesselOn_def)
  have h7: "kessel_impl (kesselOff :: (CheckRequest list) Config) \<noteq> ''impl''"
    by (simp add: kesselOff_def)
  note t6 = middleware_fails_closed [where cfg = "kesselOn (\<lambda>req. Inr ALLOWED_FALSE)"
      and checkClient = "recordingService (\<lambda>req. Inr ALLOWED_FALSE)"
      and relation = RelationRead and resourceExtractor = runExtractor,
      THEN conjunct2, THEN conjunct2, THEN conjunct2, THEN conjunct2, THEN conjunct2,
      THEN conjunct2, THEN conjunct2, THEN conjunct2, THEN mp, OF h6]
  note t7 = middleware_fails_closed [where cfg = "kesselOff :: (CheckRequest list) Config"
      and relation = RelationRead and resourceExtractor = runExtractor,
      THEN conjunct2, THEN conjunct2, THEN conjunct2, THEN conjunct2, THEN conjunct2,
      THEN conjunct2, THEN conjunct2, THEN conjunct1, THEN mp, OF h7]
  from c1 c2 c3 t4 t5 t6 t7 show ?thesis
    by (intro conjI)
qed


section \<open>The migration setup wires one system at a time\<close>

text \<open>
  Claim C8, as the code has it. \<open>SetupRoutesWithBothRBACAndKessel\<close> does not run two
  resolvers for a request; the flag \<open>kessel.enabled\<close> selects what is wired. With the
  flag off it registers no route (the registrations of the legacy system are commented
  out in the source), so no Kessel check is made. With the flag on it registers
  \<open>GET /runs\<close> and \<open>GET /runs/:run_id\<close>, each with exactly one middleware, the Kessel
  one (on the mock client unless \<open>kessel.impl\<close> is "impl", else on the connected client,
  and it panics if that client cannot be created); the decision of that middleware is
  the only one made, and nothing is recorded for comparison.
\<close>

theorem migration_setup_wires_one_system:
  "(\<not> kessel_enabled cfg
      \<longrightarrow> SetupRoutesWithBothRBACAndKessel EnforceIdentity cfg controllers
          = Return (\<lparr> prefix = ''/api/playbook-dispatcher/v1'',
                      groupMiddleware = [EnforceIdentity],
                      routes = [] \<rparr>, None))
   \<and> (kessel_enabled cfg \<and> kessel_impl cfg \<noteq> ''impl''
      \<longrightarrow> SetupRoutesWithBothRBACAndKessel EnforceIdentity cfg controllers
          = Return (\<lparr> prefix = ''/api/playbook-dispatcher/v1'',
                      groupMiddleware = [EnforceIdentity],
                      routes =
                        [\<lparr> Method = ''GET'', Path = ''/runs'',
                           handler = ApiRunsList controllers,
                           middleware = [enforceWithClient (NewMockKesselClient True) RelationRead
                                           (orgExtractor ResourceTypeRun)] \<rparr>,
                         \<lparr> Method = ''GET'', Path = ''/runs/:run_id'',
                           handler = ApiRunsGet controllers,
                           middleware = [enforceWithClient (NewMockKesselClient True) RelationRead
                                           runExtractor] \<rparr>] \<rparr>, None))
   \<and> (kessel_enabled cfg \<and> kessel_impl cfg = ''impl'' \<and> dial cfg = Inr checkClient
      \<longrightarrow> SetupRoutesWithBothRBACAndKessel EnforceIdentity cfg controllers
          = Return (\<lparr> prefix = ''/api/playbook-dispatcher/v1'',
                      groupMiddleware = [EnforceIdentity],
                      routes =
                        [\<lparr> Method = ''GET'', Path = ''/runs'',
                           handler = ApiRunsList controllers,
                           middleware = [enforceWithClient (clientImpl checkClient) RelationRead
                                           (orgExtractor ResourceTypeRun)] \<rparr>,
                         \<lparr> Method = ''GET'', Path = ''/runs/:run_id'',
                           handler = ApiRunsGet controllers,
                           middleware = [enforceWithClient (clientImpl checkClient) RelationRead
                                           runExtractor] \<rparr>] \<rparr>, None))
   \<and> (kessel_enabled cfg \<and> kessel_impl cfg = ''impl'' \<and> dial cfg = Inl e
      \<longrightarrow> SetupRoutesWithBothRBACAndKessel EnforceIdentity cfg controllers = Panic)
   \<and> (SetupRoutesWithBothRBACAndKessel EnforceIdentity cfg controllers = Return (api, err)
      \<longrightarrow> err = None
          \<and> (\<forall>route \<in> set (routes api). length (middleware route) = 1)
          \<and> (routes api = [] \<longleftrightarrow> \<not> kessel_enabled cfg))"
proof (intro conjI impI)
  assume a: "SetupRoutesWithBothRBACAndKessel EnforceIdentity cfg controllers = Return (api, err)"
  have "err = None \<and> (\<forall>route \<in> set (routes api). length (middleware route) = 1)
          \<and> (routes api = [] \<longleftrightarrow> \<not> kessel_enabled cfg)"
  proof (cases "kessel_enabled cfg")
    case False
    with a show ?thesis
      by (auto simp: SetupRoutesWithBothRBACAndKessel_def)
  next
    case True
    show ?thesis
    proof (cases "kessel_impl cfg = ''impl''")
      case False
      with a True show ?thesis
        by (auto simp: SetupRoutesWithBothRBACAndKessel_def EnforceKesselOrgPermissions_def
            EnforceKesselPermissions_def)
    next
      case impl: True
      show ?thesis
      proof (cases "dial cfg")
        case (Inl x)
        with a True impl show ?thesis
          by (simp add: SetupRoutesWithBothRBACAndKessel_def EnforceKesselOrgPermissions_def
              EnforceKesselPermissions_def NewKesselClient_def)
      next
        case (Inr x)
        with a True impl show ?thesis
          by (auto simp: SetupRoutesWithBothRBACAndKessel_def EnforceKesselOrgPermissions_def
              EnforceKesselPermissions_def NewKesselClient_def)
      qed
    qed
  qed
  then show "err = None" and "\<forall>route \<in> set (routes api). length (middleware route) = 1"
    and "routes api = [] \<longleftrightarrow> \<not> kessel_enabled cfg"
    by blast+
qed (simp_all add: SetupRoutesWithBothRBACAndKessel_def EnforceKesselOrgPermissions_def
      EnforceKesselPermissions_def NewKesselClient_def)



theorem migration_setup_wires_one_system_witness:
  "SetupRoutesWithBothRBACAndKessel (\<lambda>next. next) kesselOff
       \<lparr> ApiRunsList = respondOK, ApiRunsGet = respondOK \<rparr>
     = Return (\<lparr> prefix = ''/api/playbook-dispatcher/v1'',
                 groupMiddleware = [\<lambda>next. next],
                 routes = [] \<rparr>, None)
   \<and> SetupRoutesWithBothRBACAndKessel (\<lambda>next. next) (kesselOff\<lparr> kessel_enabled := True \<rparr>)
       \<lparr> ApiRunsList = respondOK, ApiRunsGet = respondOK \<rparr>
     = Return (\<lparr> prefix = ''/api/playbook-dispatcher/v1'',
                 groupMiddleware = [\<lambda>next. next],
                 routes =
                   [\<lparr> Method = ''GET'', Path = ''/runs'', handler = respondOK,
                      middleware = [enforceWithClient (NewMockKesselClient True) RelationRead
                                      (orgExtractor ResourceTypeRun)] \<rparr>,
                    \<lparr> Method = ''GET'', Path = ''/runs/:run_id'', handler = respondOK,
                      middleware = [enforceWithClient (NewMockKesselClient True) RelationRead
                                      runExtractor] \<rparr>] \<rparr>, None)
   \<and> SetupRoutesWithBothRBACAndKessel (\<lambda>next. next) (kesselOn (\<lambda>req. Inr ALLOWED_FALSE))
       \<lparr> ApiRunsList = respondOK, ApiRunsGet = respondOK \<rparr>
     = Return (\<lparr> prefix = ''/api/playbook-dispatcher/v1'',
                 groupMiddleware = [\<lambda>next. next],
                 routes =
                   [\<lparr> Method = ''GET'', Path = ''/runs'', handler = respondOK,
                      middleware = [enforceWithClient
                                      (clientImpl (recordingService (\<lambda>req. Inr ALLOWED_FALSE)))
                                      RelationRead (orgExtractor ResourceTypeRun)] \<rparr>,
                    \<lparr> Method = ''GET'', Path = ''/runs/:run_id'', handler = respondOK,
                      middleware = [enforceWithClient
                                      (clientImpl (recordingService (\<lambda>req. Inr ALLOWED_FALSE)))
                                      RelationRead runExtractor] \<rparr>] \<rparr>, None)
   \<and> SetupRoutesWithBothRBACAndKessel (\<lambda>next. next)
       ((kesselOn (\<lambda>req. Inr ALLOWED_FALSE)) \<lparr> dial := Inl (Errorf ''connection refused'') \<rparr>)
       \<lparr> ApiRunsList = respondOK, ApiRunsGet = respondOK \<rparr> = Panic
   \<and> map (\<lambda>route. length (middleware route))
         [\<lparr> Method = ''GET'', Path = ''/runs'', handler = respondOK,
            middleware = [enforceWithClient (NewMockKesselClient True) RelationRead
                            (orgExtractor ResourceTypeRun)] \<rparr>,
          \<lparr> Method = ''GET'', Path = ''/runs/:run_id'', handler = respondOK,
            middleware = [enforceWithClient (NewMockKesselClient True) RelationRead
                            runExtractor] \<rparr>] = [1, 1]"
proof -
  let ?controllers = "\<lparr> ApiRunsList = respondOK, ApiRunsGet = respondOK \<rparr>"
  let ?mockOn = "kesselOff\<lparr> kessel_enabled := True \<rparr>"
  let ?on = "kesselOn (\<lambda>req. Inr ALLOWED_FALSE)"
  let ?broken = "?on \<lparr> dial := Inl (Errorf ''connection refused'') \<rparr>"
  let ?api = "\<lparr> prefix = ''/api/playbook-dispatcher/v1'',
                 groupMiddleware = [\<lambda>next. next],
                 routes =
                   [\<lparr> Method = ''GET'', Path = ''/runs'', handler = respondOK,
                      middleware = [enforceWithClient (NewMockKesselClient True) RelationRead
                                      (orgExtractor ResourceTypeRun)] \<rparr>,
                    \<lparr> Method = ''GET'', Path = ''/runs/:run_id'', handler = respondOK,
                      middleware = [enforceWithClient (NewMockKesselClient True) RelationRead
                                      runExtractor] \<rparr>] \<rparr>"
  have h1: "\<not> kessel_enabled kesselOff"
    by (simp add: kesselOff_def)
  have h2: "kessel_enabled ?mockOn \<and> kessel_impl ?mockOn \<noteq> ''impl''"
    by (simp add: kesselOff_def)
  have h3: "kessel_enabled ?on \<and> kessel_impl ?on = ''impl''
      \<and> dial ?on = Inr (recordingService (\<lambda>req. Inr ALLOWED_FALSE))"
    by (simp add: kesselOn_def)
  have h4: "kessel_enabled ?broken \<and> kessel_impl ?broken = ''impl''
      \<and> dial ?broken = Inl (Errorf ''connection refused'')"
    by (simp add: kesselOn_def)
  note t1 = migration_setup_wires_one_system [where cfg = kesselOff
      and EnforceIdentity = "\<lambda>next. next" and controllers = ?controllers,
      THEN conjunct1, THEN mp, OF h1]
  note t2 = migration_setup_wires_one_system [where cfg = ?mockOn
      and EnforceIdentity = "\<lambda>next. next" and controllers = ?controllers,
      THEN conjunct2, THEN conjunct1, THEN mp, OF h2]
  note t3 = migration_setup_wires_one_system [where cfg = ?on
      and EnforceIdentity = "\<lambda>next. next" and controllers = ?controllers,
      THEN conjunct2, THEN conjunct2, THEN conjunct1, THEN mp, OF h3]
  note t4 = migration_setup_wires_one_system [where cfg = ?broken
      and EnforceIdentity = "\<lambda>next. next" and controllers = ?controllers,
      THEN conjunct2, THEN conjunct2, THEN conjunct2, THEN conjunct1, THEN mp, OF h4]
  have h5: "SetupRoutesWithBothRBACAndKessel (\<lambda>next. next) ?mockOn ?controllers
      = Return (?api, None)"
    using t2 by simp
  note t5 = migration_setup_wires_one_system [where cfg = ?mockOn
      and EnforceIdentity = "\<lambda>next. next" and controllers = ?controllers
      and api = ?api and err = None,
      THEN conjunct2, THEN conjunct2, THEN conjunct2, THEN conjunct2, THEN mp, OF h5]
  have c5: "\<forall>route \<in> set (routes ?api). length (middleware route) = 1"
    using t5 by blast
  have c2: "SetupRoutesWithBothRBACAndKessel (\<lambda>next. next) ?mockOn ?controllers
      = Return (?api, None)"
    by (rule h5)
  from t1 have c1: "SetupRoutesWithBothRBACAndKessel (\<lambda>next. next) kesselOff ?controllers
     = Return (\<lparr> prefix = ''/api/playbook-dispatcher/v1'',
                 groupMiddleware = [\<lambda>next. next],
                 routes = [] \<rparr>, None)" .
  from t3 have c3: "SetupRoutesWithBothRBACAndKessel (\<lambda>next. next) ?on ?controllers
     = Return (\<lparr> prefix = ''/api/playbook-dispatcher/v1'',
                 groupMiddleware = [\<lambda>next. next],
                 routes =
                   [\<lparr> Method = ''GET'', Path = ''/runs'', handler = respondOK,
                      middleware = [enforceWithClient
                                      (clientImpl (recordingService (\<lambda>req. Inr ALLOWED_FALSE)))
                                      RelationRead (orgExtractor ResourceTypeRun)] \<rparr>,
                    \<lparr> Method = ''GET'', Path = ''/runs/:run_id'', handler = respondOK,
                      middleware = [enforceWithClient
                                      (clientImpl (recordingService (\<lambda>req. Inr ALLOWED_FALSE)))
                                      RelationRead runExtractor] \<rparr>] \<rparr>, None)"
    by simp
  have c5': "map (\<lambda>route. length (middleware route))
         [\<lparr> Method = ''GET'', Path = ''/runs'', handler = respondOK,
            middleware = [enforceWithClient (NewMockKesselClient True) RelationRead
                            (orgExtractor ResourceTypeRun)] \<rparr>,
          \<lparr> Method = ''GET'', Path = ''/runs/:run_id'', handler = respondOK,
            middleware = [enforceWithClient (NewMockKesselClient True) RelationRead
                            runExtractor] \<rparr>] = [1, 1]"
    using c5 by simp
  from c1 c2 c3 t4 c5' show ?thesis
    by (intro conjI)
qed

text \<open>
  The claim as stated fails: in neither configuration do two resolvers run for one
  request. With Kessel disabled there is no route; with Kessel enabled every route has
  a single authorization middleware, and a request by \<open>jdoe\<close> to either route is
  rejected with 403 after exactly one check, the Kessel one, reached the service.
\<close>

theorem single_system_counterexample:
  "(case SetupRoutesWithBothRBACAndKessel (\<lambda>next. next) kesselOff
            \<lparr> ApiRunsList = respondOK, ApiRunsGet = respondOK \<rparr> of
      Return (api, err) \<Rightarrow> map (\<lambda>route. (Path route, length (middleware route))) (routes api)
    | Panic \<Rightarrow> [(''panic'', 0)]) = []
   \<and> (case SetupRoutesWithBothRBACAndKessel (\<lambda>next. next) (kesselOn (\<lambda>req. Inr ALLOWED_FALSE))
            \<lparr> ApiRunsList = respondOK, ApiRunsGet = respondOK \<rparr> of
      Return (api, err) \<Rightarrow> map (\<lambda>route. (Path route, length (middleware route))) (routes api)
    | Panic \<Rightarrow> [(''panic'', 0)]) = [(''/runs'', 1), (''/runs/:run_id'', 1)]
   \<and> (case SetupRoutesWithBothRBACAndKessel (\<lambda>next. next) (kesselOn (\<lambda>req. Inr ALLOWED_FALSE))
            \<lparr> ApiRunsList = respondOK, ApiRunsGet = respondOK \<rparr> of
      Return (api, err) \<Rightarrow>
        map (\<lambda>route. applyMiddleware (handler route) (middleware route) (jdoeRequest []))
          (routes api)
    | Panic \<Rightarrow> [])
     = [(Some (HTTPError 403 ''Forbidden''),
         (jdoeRequest [\<lparr> SubjectTypeName = ''user'', SubjectId = ''jdoe'', Relation = ''read'',
                         ResourceTypeName = ''playbook-dispatcher/run'', ResourceId = ''*'' \<rparr>])
           \<lparr> instrumentation := [RbacRejected] \<rparr>),
        (Some (HTTPError 403 ''Forbidden''),
         (jdoeRequest [\<lparr> SubjectTypeName = ''user'', SubjectId = ''jdoe'', Relation = ''read'',
                         ResourceTypeName = ''playbook-dispatcher/run'', ResourceId = ''r1'' \<rparr>])
           \<lparr> instrumentation := [RbacRejected] \<rparr>)]"
  by (simp add: SetupRoutesWithBothRBACAndKessel_def EnforceKesselOrgPermissions_def
      EnforceKesselPermissions_def NewKesselClient_def kesselOff_def kesselOn_def
      applyMiddleware_def enforceWithClient_def orgExtractor_def runExtractor_def
      jdoeRequest_def clientImpl_def clientImpl_Check_def recordingService_def toCheckRequest_def
      RelationRead_def ResourceTypeRun_def SubjectTypeUser_def StatusForbidden_def)


end
